theory Spec2Isabelle
  imports Main "HOL-Library.AList" "HOL-Library.Word"
begin

section \<open>Strings, bytes and exceptions\<close>

text \<open>
  A Python \<open>str\<close> is a sequence of Unicode code points; it is modelled as a list of
  natural numbers (a value of Python is below \<open>0x110000\<close>). \<open>lit\<close> turns an ASCII
  literal of the source into that representation. Bytes are 8-bit words.
\<close>

type_synonym ustr = "nat list"
type_synonym byte = "8 word"
type_synonym path = ustr

definition lit :: "string \<Rightarrow> ustr" where
  "lit s = map of_char s"

text \<open>
  An exception carries its class name, the text \<open>str(e)\<close> returns, and the exception
  that was being handled when it was raised (\<open>__context__\<close>), if any.
\<close>

datatype exn = Exn ustr ustr "exn option"

fun exn_class :: "exn \<Rightarrow> ustr" where
  "exn_class (Exn c m x) = c"

fun str :: "exn \<Rightarrow> ustr" where
  "str (Exn c m x) = m"

fun exn_context :: "exn \<Rightarrow> exn option" where
  "exn_context (Exn c m x) = x"

text \<open>\<^verbatim>\<open>except Exception as e: raise Exception(f"<prefix>{str(e)}")\<close>\<close>

definition reraise :: "string \<Rightarrow> exn \<Rightarrow> exn" where
  "reraise prefix e = Exn (lit ''Exception'') (lit prefix @ str e) (Some e)"

definition IndexError :: exn where
  "IndexError = Exn (lit ''IndexError'') (lit ''list index out of range'') None"

definition KeyError :: "ustr \<Rightarrow> exn" where
  "KeyError k = Exn (lit ''KeyError'') ([39] @ k @ [39]) None"

definition TypeError :: exn where
  "TypeError = Exn (lit ''TypeError'') (lit ''string indices must be integers'') None"

definition AttributeError_None :: "string \<Rightarrow> exn" where
  "AttributeError_None a =
     Exn (lit ''AttributeError'')
       ([39] @ lit ''NoneType'' @ [39] @ lit '' object has no attribute '' @ [39] @ lit a @ [39])
       None"

definition FileNotFoundError :: "path \<Rightarrow> exn" where
  "FileNotFoundError p = Exn (lit ''FileNotFoundError'') p None"

text \<open>The chain of contexts ends in the exception that was raised first.\<close>

fun root_cause :: "exn \<Rightarrow> exn" where
  "root_cause (Exn c m None) = Exn c m None"
| "root_cause (Exn c m (Some e)) = root_cause e"

subsection \<open>String operations of the source\<close>

text \<open>\<open>s.endswith(suffix)\<close>\<close>

definition endswith :: "'a list \<Rightarrow> 'a list \<Rightarrow> bool" where
  "endswith s suffix \<longleftrightarrow>
     length suffix \<le> length s \<and> drop (length s - length suffix) s = suffix"

text \<open>\<open>s.split(sep)\<close> for a separator of one character: every occurrence splits.\<close>

fun push_front :: "'a \<Rightarrow> 'a list list \<Rightarrow> 'a list list" where
  "push_front c [] = [[c]]"
| "push_front c (piece # pieces) = (c # piece) # pieces"

fun split_on :: "'a \<Rightarrow> 'a list \<Rightarrow> 'a list list" where
  "split_on sep [] = [[]]"
| "split_on sep (c # cs) =
     (if c = sep then [] # split_on sep cs else push_front c (split_on sep cs))"

text \<open>\<open>xs[i]\<close> for a non-negative index.\<close>

definition list_getitem :: "'a list \<Rightarrow> nat \<Rightarrow> exn + 'a" where
  "list_getitem xs i = (if i < length xs then Inr (xs ! i) else Inl IndexError)"

section \<open>The parsed HTML tree\<close>

text \<open>
  The tree BeautifulSoup returns: a tag with its name, its attribute dictionary and its
  children; a text node; and a string node that \<open>get_text\<close> leaves out (a comment, a
  doctype). The root object is itself a tag.
\<close>

datatype node =
    Tag ustr "(ustr \<times> ustr) list" "node list"
  | NavigableString ustr
  | Comment ustr

text \<open>\<open>element.name\<close>: \<open>None\<close> for every string node.\<close>

fun name :: "node \<Rightarrow> ustr option" where
  "name (Tag n as cs) = Some n"
| "name (NavigableString s) = None"
| "name (Comment s) = None"

text \<open>\<open>element.descendants\<close>: all nodes below the element, depth first, in document order.\<close>

fun descendants :: "node \<Rightarrow> node list" where
  "descendants (Tag n as cs) = concat (map (\<lambda>c. c # descendants c) cs)"
| "descendants (NavigableString s) = []"
| "descendants (Comment s) = []"

text \<open>\<open>element.get_text()\<close>: the text nodes below the element, joined.\<close>

fun get_text :: "node \<Rightarrow> ustr" where
  "get_text (Tag n as cs) = concat (map get_text cs)"
| "get_text (NavigableString s) = s"
| "get_text (Comment s) = []"

text \<open>\<open>soup.body\<close>: the first tag named \<open>body\<close> below the root, or \<open>None\<close>.\<close>

definition body :: "node \<Rightarrow> node option" where
  "body soup = find (\<lambda>e. name e = Some (lit ''body'')) (descendants soup)"

text \<open>\<open>element[key]\<close>\<close>

fun getitem :: "node \<Rightarrow> ustr \<Rightarrow> exn + ustr" where
  "getitem (Tag n as cs) key =
     (case map_of as key of None \<Rightarrow> Inl (KeyError key) | Some v \<Rightarrow> Inr v)"
| "getitem (NavigableString s) key = Inl TypeError"
| "getitem (Comment s) key = Inl TypeError"

section \<open>The output document and the file system\<close>

text \<open>
  A document under construction is the sequence of what was added to it. A picture holds
  the bytes of the image file it was read from and its width in English Metric Units;
  \<open>Inches\<close> is the unit conversion of the document library.
\<close>

datatype item = Paragraph ustr | Picture "byte list" int

definition Inches :: "int \<Rightarrow> int" where
  "Inches n = n * 914400"

text \<open>
  A file holds bytes; a saved document is kept as its item sequence (its package bytes are
  the document library's business). The file system is an association list from paths to
  contents.
\<close>

datatype fcontent = Bytes "byte list" | Docx "item list"

type_synonym fs = "(path \<times> fcontent) list"

section \<open>The libraries and the platform\<close>

text \<open>
  What the program calls but does not define is a parameter: the HTML parser, the base64
  decoder, the image decoder and PNG encoder (over an image type \<open>'i\<close>), the name chosen
  for a new temporary file given its suffix and the names in use, the error (if any) that
  opening a path for writing raises, the platform line separator, the error the UTF-8
  codec raises on a text it cannot encode, and the error (if any) that the document
  library raises when it is given a text for a paragraph (it refuses text that XML cannot
  carry, such as control characters). The record describes the platform at the time of a
  call: what opening a path raises depends on the files and directories that exist then.
\<close>

record 'i libs =
  parse_html :: "ustr \<Rightarrow> exn + node"
  b64decode :: "ustr \<Rightarrow> exn + byte list"
  image_open :: "byte list \<Rightarrow> exn + 'i"
  png_save :: "'i \<Rightarrow> exn + byte list"
  mktemp :: "ustr \<Rightarrow> path list \<Rightarrow> path"
  io_error :: "path \<Rightarrow> exn option"
  linesep :: ustr
  encode_error :: "ustr \<Rightarrow> exn"
  paragraph_error :: "ustr \<Rightarrow> exn option"

text \<open>The UTF-8 codec: a surrogate or a value beyond Unicode has no encoding.\<close>

definition utf8_char :: "nat \<Rightarrow> byte list option" where
  "utf8_char cp =
     (if cp < 0x80 then Some [of_nat cp]
      else if cp < 0x800 then Some [of_nat (0xC0 + cp div 64), of_nat (0x80 + cp mod 64)]
      else if cp < 0x10000 then
        (if 0xD800 \<le> cp \<and> cp < 0xE000 then None
         else Some [of_nat (0xE0 + cp div 4096), of_nat (0x80 + cp div 64 mod 64),
                    of_nat (0x80 + cp mod 64)])
      else if cp < 0x110000 then
        Some [of_nat (0xF0 + cp div 262144), of_nat (0x80 + cp div 4096 mod 64),
              of_nat (0x80 + cp div 64 mod 64), of_nat (0x80 + cp mod 64)]
      else None)"

fun utf8_encode :: "ustr \<Rightarrow> byte list option" where
  "utf8_encode [] = Some []"
| "utf8_encode (c # cs) =
     (case utf8_char c of None \<Rightarrow> None
      | Some bs \<Rightarrow> (case utf8_encode cs of None \<Rightarrow> None | Some rest \<Rightarrow> Some (bs @ rest)))"

text \<open>
  A text file opened with \<open>newline=None\<close> writes the platform line separator for every
  line feed.
\<close>

definition translate_newlines :: "ustr \<Rightarrow> ustr \<Rightarrow> ustr" where
  "translate_newlines sep s = concat (map (\<lambda>c. if c = 10 then sep else [c]) s)"

text \<open>
  \<^verbatim>\<open>with open(file_name, "w", encoding="utf-8") as file: file.write(text)\<close>:
  opening creates or truncates the file, writing encodes the text.
\<close>

definition write_text :: "'i libs \<Rightarrow> path \<Rightarrow> ustr \<Rightarrow> fs \<Rightarrow> (exn + unit) \<times> fs" where
  "write_text L file_name text fs =
     (case io_error L file_name of
        Some e \<Rightarrow> (Inl e, fs)
      | None \<Rightarrow>
          (let fs1 = AList.update file_name (Bytes []) fs in
           case utf8_encode (translate_newlines (linesep L) text) of
             None \<Rightarrow> (Inl (encode_error L text), fs1)
           | Some bs \<Rightarrow> (Inr (), AList.update file_name (Bytes bs) fs1)))"

text \<open>
  \<open>document.add_picture(path, width=w)\<close> reads the image file at the path and embeds its
  bytes; the files it is given here are the PNG files the exporter has just written.
\<close>

definition add_picture :: "path \<Rightarrow> int \<Rightarrow> item list \<Rightarrow> fs \<Rightarrow> (exn + item list) \<times> fs" where
  "add_picture p width document fs =
     (case map_of fs p of
        Some (Bytes blob) \<Rightarrow> (Inr (document @ [Picture blob width]), fs)
      | _ \<Rightarrow> (Inl (FileNotFoundError p), fs))"

text \<open>\<open>document.add_paragraph(text)\<close>\<close>

definition add_paragraph :: "'i libs \<Rightarrow> ustr \<Rightarrow> item list \<Rightarrow> exn + item list" where
  "add_paragraph L text document =
     (case paragraph_error L text of
        Some e \<Rightarrow> Inl e
      | None \<Rightarrow> Inr (document @ [Paragraph text]))"

text \<open>\<open>document.save(file_name)\<close>\<close>

definition document_save :: "'i libs \<Rightarrow> item list \<Rightarrow> path \<Rightarrow> fs \<Rightarrow> (exn + unit) \<times> fs" where
  "document_save L document file_name fs =
     (case io_error L file_name of
        Some e \<Rightarrow> (Inl e, fs)
      | None \<Rightarrow> (Inr (), AList.update file_name (Docx document) fs))"

section \<open>\<open>NoteApp\<close> (main.py)\<close>

text \<open>
  The \<open>elif element.name == "img"\<close> branch of \<open>save_as_docx\<close>. The temporary file exists
  from the moment it is created (\<open>delete=False\<close>), whatever happens next.
\<close>

definition NoteApp_img_branch ::
  "'i libs \<Rightarrow> node \<Rightarrow> item list \<Rightarrow> fs \<Rightarrow> (exn + item list) \<times> fs" where
  "NoteApp_img_branch L element document fs =
     (case getitem element (lit ''src'') of Inl e \<Rightarrow> (Inl e, fs) | Inr src \<Rightarrow>
      (case list_getitem (split_on 44 src) 1 of Inl e \<Rightarrow> (Inl e, fs) | Inr img_data \<Rightarrow>
       (case b64decode L img_data of Inl e \<Rightarrow> (Inl e, fs) | Inr image_bytes \<Rightarrow>
        (case image_open L image_bytes of Inl e \<Rightarrow> (Inl e, fs) | Inr img \<Rightarrow>
         (let temp_image_path = mktemp L (lit ''.png'') (map fst fs);
              fs1 = AList.update temp_image_path (Bytes []) fs in
          case png_save L img of Inl e \<Rightarrow> (Inl e, fs1) | Inr png \<Rightarrow>
            add_picture temp_image_path (Inches 4) document
              (AList.update temp_image_path (Bytes png) fs1))))))"

text \<open>The body of the \<open>for\<close> loop, and the loop over the descendants.\<close>

definition NoteApp_visit ::
  "'i libs \<Rightarrow> node \<Rightarrow> item list \<Rightarrow> fs \<Rightarrow> (exn + item list) \<times> fs" where
  "NoteApp_visit L element document fs =
     (if name element = Some (lit ''p'') then
        (add_paragraph L (get_text element) document, fs)
      else if name element = Some (lit ''img'') then
        NoteApp_img_branch L element document fs
      else (Inr document, fs))"

fun NoteApp_loop ::
  "'i libs \<Rightarrow> node list \<Rightarrow> item list \<Rightarrow> fs \<Rightarrow> (exn + item list) \<times> fs" where
  "NoteApp_loop L [] document fs = (Inr document, fs)"
| "NoteApp_loop L (element # rest) document fs =
     (case NoteApp_visit L element document fs of
        (Inl e, fs') \<Rightarrow> (Inl e, fs')
      | (Inr document', fs') \<Rightarrow> NoteApp_loop L rest document' fs')"

text \<open>\<open>save_as_docx\<close>; \<open>html_content\<close> is what \<open>self.text_edit.toHtml()\<close> returns.\<close>

definition NoteApp_save_as_docx ::
  "'i libs \<Rightarrow> ustr \<Rightarrow> path \<Rightarrow> fs \<Rightarrow> (exn + unit) \<times> fs" where
  "NoteApp_save_as_docx L html_content file_name fs =
     (case parse_html L html_content of Inl e \<Rightarrow> (Inl e, fs) | Inr soup \<Rightarrow>
      (case body soup of
         None \<Rightarrow> (Inl (AttributeError_None ''descendants''), fs)
       | Some b \<Rightarrow>
           (case NoteApp_loop L (descendants b) [] fs of
              (Inl e, fs') \<Rightarrow> (Inl e, fs')
            | (Inr document, fs') \<Rightarrow> document_save L document file_name fs')))"

definition NoteApp_save_to_file ::
  "'i libs \<Rightarrow> ustr \<Rightarrow> path \<Rightarrow> fs \<Rightarrow> (exn + unit) \<times> fs" where
  "NoteApp_save_to_file L html_content file_name fs =
     (if endswith file_name (lit ''.docx'') then NoteApp_save_as_docx L html_content file_name fs
      else write_text L file_name html_content fs)"

section \<open>\<open>NoteModel\<close> (2.py)\<close>

text \<open>A \<open>try\<close> block whose handler raises a new exception with a prefixed message.\<close>

definition try_except :: "string \<Rightarrow> (exn + 'a) \<times> fs \<Rightarrow> (exn + 'a) \<times> fs" where
  "try_except prefix r =
     (case r of (Inl e, fs') \<Rightarrow> (Inl (reraise prefix e), fs') | (Inr v, fs') \<Rightarrow> (Inr v, fs'))"

text \<open>
  \<open>_add_image_to_doc\<close>. Here the picture is added inside the \<open>with\<close> block, while the
  temporary file is still open; the image library flushes the stream it saved to, so the
  file read by \<open>add_picture\<close> holds the PNG bytes, as in \<open>NoteApp\<close>.
\<close>

definition NoteModel_add_image_to_doc ::
  "'i libs \<Rightarrow> item list \<Rightarrow> node \<Rightarrow> fs \<Rightarrow> (exn + item list) \<times> fs" where
  "NoteModel_add_image_to_doc L document element fs =
     try_except ''Image processing failed: ''
      (case getitem element (lit ''src'') of Inl e \<Rightarrow> (Inl e, fs) | Inr src \<Rightarrow>
       (case list_getitem (split_on 44 src) 1 of Inl e \<Rightarrow> (Inl e, fs) | Inr img_data \<Rightarrow>
        (case b64decode L img_data of Inl e \<Rightarrow> (Inl e, fs) | Inr image_bytes \<Rightarrow>
         (case image_open L image_bytes of Inl e \<Rightarrow> (Inl e, fs) | Inr img \<Rightarrow>
          (let temp_image = mktemp L (lit ''.png'') (map fst fs);
               fs1 = AList.update temp_image (Bytes []) fs in
           case png_save L img of Inl e \<Rightarrow> (Inl e, fs1) | Inr png \<Rightarrow>
             add_picture temp_image (Inches 4) document
               (AList.update temp_image (Bytes png) fs1))))))"

definition NoteModel_visit ::
  "'i libs \<Rightarrow> node \<Rightarrow> item list \<Rightarrow> fs \<Rightarrow> (exn + item list) \<times> fs" where
  "NoteModel_visit L element document fs =
     (if name element = Some (lit ''p'') then
        (add_paragraph L (get_text element) document, fs)
      else if name element = Some (lit ''img'') then
        NoteModel_add_image_to_doc L document element fs
      else (Inr document, fs))"

fun NoteModel_loop ::
  "'i libs \<Rightarrow> node list \<Rightarrow> item list \<Rightarrow> fs \<Rightarrow> (exn + item list) \<times> fs" where
  "NoteModel_loop L [] document fs = (Inr document, fs)"
| "NoteModel_loop L (element # rest) document fs =
     (case NoteModel_visit L element document fs of
        (Inl e, fs') \<Rightarrow> (Inl e, fs')
      | (Inr document', fs') \<Rightarrow> NoteModel_loop L rest document' fs')"

definition NoteModel_save_as_docx ::
  "'i libs \<Rightarrow> ustr \<Rightarrow> path \<Rightarrow> fs \<Rightarrow> (exn + unit) \<times> fs" where
  "NoteModel_save_as_docx L html_content file_name fs =
     try_except ''DOCX conversion failed: ''
      (case parse_html L html_content of Inl e \<Rightarrow> (Inl e, fs) | Inr soup \<Rightarrow>
       (case body soup of
          None \<Rightarrow> (Inl (AttributeError_None ''descendants''), fs)
        | Some b \<Rightarrow>
            (case NoteModel_loop L (descendants b) [] fs of
               (Inl e, fs') \<Rightarrow> (Inl e, fs')
             | (Inr document, fs') \<Rightarrow> document_save L document file_name fs')))"

definition NoteModel_save_to_file ::
  "'i libs \<Rightarrow> ustr \<Rightarrow> path \<Rightarrow> fs \<Rightarrow> (exn + bool) \<times> fs" where
  "NoteModel_save_to_file L content file_name fs =
     try_except ''Save failed: ''
      (case (if endswith file_name (lit ''.docx'')
             then NoteModel_save_as_docx L content file_name fs
             else write_text L file_name content fs) of
         (Inl e, fs') \<Rightarrow> (Inl e, fs')
       | (Inr u, fs') \<Rightarrow> (Inr True, fs'))"

section \<open>What the traversal computes\<close>

text \<open>
  The PNG bytes derived from an image element: the data flow of the image branch without
  its file-system effects.
\<close>

definition png_of :: "'i libs \<Rightarrow> node \<Rightarrow> exn + byte list" where
  "png_of L element =
     (case getitem element (lit ''src'') of Inl e \<Rightarrow> Inl e | Inr src \<Rightarrow>
      (case list_getitem (split_on 44 src) 1 of Inl e \<Rightarrow> Inl e | Inr img_data \<Rightarrow>
       (case b64decode L img_data of Inl e \<Rightarrow> Inl e | Inr image_bytes \<Rightarrow>
        (case image_open L image_bytes of Inl e \<Rightarrow> Inl e | Inr img \<Rightarrow> png_save L img))))"

text \<open>What one node adds to the document, or the exception its visit raises.\<close>

definition contribution :: "'i libs \<Rightarrow> node \<Rightarrow> exn + item list" where
  "contribution L element =
     (if name element = Some (lit ''p'') then add_paragraph L (get_text element) []
      else if name element = Some (lit ''img'') then
        (case png_of L element of Inl e \<Rightarrow> Inl e | Inr png \<Rightarrow> Inr [Picture png (Inches 4)])
      else Inr [])"

fun contributions :: "'i libs \<Rightarrow> node list \<Rightarrow> exn + item list" where
  "contributions L [] = Inr []"
| "contributions L (element # rest) =
     (case contribution L element of Inl e \<Rightarrow> Inl e
      | Inr xs \<Rightarrow> (case contributions L rest of Inl e \<Rightarrow> Inl e | Inr ys \<Rightarrow> Inr (xs @ ys)))"

text \<open>The items of a node whose visit succeeds.\<close>

definition node_items :: "'i libs \<Rightarrow> node \<Rightarrow> item list" where
  "node_items L element =
     (if name element = Some (lit ''p'') then [Paragraph (get_text element)]
      else if name element = Some (lit ''img'') then
        (case png_of L element of Inl e \<Rightarrow> [] | Inr png \<Rightarrow> [Picture png (Inches 4)])
      else [])"

fun paragraph_texts :: "item list \<Rightarrow> ustr list" where
  "paragraph_texts [] = []"
| "paragraph_texts (Paragraph t # xs) = t # paragraph_texts xs"
| "paragraph_texts (Picture blob w # xs) = paragraph_texts xs"

fun picture_blobs :: "item list \<Rightarrow> byte list list" where
  "picture_blobs [] = []"
| "picture_blobs (Paragraph t # xs) = picture_blobs xs"
| "picture_blobs (Picture blob w # xs) = blob # picture_blobs xs"

text \<open>The items of the document saved at a path, if one was saved there.\<close>

definition saved_document :: "fs \<Rightarrow> path \<Rightarrow> item list" where
  "saved_document fs p = (case map_of fs p of Some (Docx items) \<Rightarrow> items | _ \<Rightarrow> [])"

section \<open>A concrete environment\<close>

text \<open>
  An instance of the libraries on which the theorems below are exercised. The base64
  decoder follows the lenient decoder of CPython: characters outside the alphabet are
  skipped, a padding sign that completes a group ends the input, and characters left over
  at the end are an error. The image decoder accepts the byte strings that begin with the
  PNG signature, and an image is kept as its bytes, which the PNG encoder returns. The
  document library refuses a paragraph text that holds a control character other than
  tab, line feed and carriage return. Temporary names are longer than every name in use,
  and every path can be opened for writing.
\<close>

definition b64_index :: "nat \<Rightarrow> nat option" where
  "b64_index c =
     (if 65 \<le> c \<and> c \<le> 90 then Some (c - 65)
      else if 97 \<le> c \<and> c \<le> 122 then Some (c - 71)
      else if 48 \<le> c \<and> c \<le> 57 then Some (c + 4)
      else if c = 43 then Some 62
      else if c = 47 then Some 63
      else None)"

fun emit :: "nat \<Rightarrow> byte list option \<Rightarrow> byte list option" where
  "emit b None = None"
| "emit b (Some bs) = Some (of_nat b # bs)"

text \<open>
  The state of the scan is the position in the current group of four, the bits left over
  from the last character, and the padding signs seen since the last character.
\<close>

fun b64_scan :: "nat \<Rightarrow> nat \<Rightarrow> nat \<Rightarrow> nat list \<Rightarrow> byte list option" where
  "b64_scan q left pads [] = (if q = 0 then Some [] else None)"
| "b64_scan q left pads (c # cs) =
     (if c = 61 then
        (if 2 \<le> q \<and> 4 \<le> q + Suc pads then Some []
         else b64_scan q left (if 2 \<le> q then Suc pads else pads) cs)
      else
        (case b64_index c of
           None \<Rightarrow> b64_scan q left pads cs
         | Some v \<Rightarrow>
             (if q = 0 then b64_scan 1 v 0 cs
              else if q = 1 then emit (left * 4 + v div 16) (b64_scan 2 (v mod 16) 0 cs)
              else if q = 2 then emit (left * 16 + v div 4) (b64_scan 3 (v mod 4) 0 cs)
              else emit (left * 64 + v) (b64_scan 0 0 0 cs))))"

definition demo_b64decode :: "ustr \<Rightarrow> exn + byte list" where
  "demo_b64decode s =
     (case b64_scan 0 0 0 s of
        None \<Rightarrow> Inl (Exn (lit ''binascii.Error'') (lit ''Incorrect padding'') None)
      | Some bs \<Rightarrow> Inr bs)"

definition png_signature :: "byte list" where
  "png_signature = [137, 80, 78, 71, 13, 10, 26, 10]"

definition demo_image_open :: "byte list \<Rightarrow> exn + byte list" where
  "demo_image_open bs =
     (if take 8 bs = png_signature then Inr bs
      else Inl (Exn (lit ''UnidentifiedImageError'') (lit ''cannot identify image file'') None))"

definition demo_png_save :: "byte list \<Rightarrow> exn + byte list" where
  "demo_png_save img = Inr img"

definition demo_paragraph_error :: "ustr \<Rightarrow> exn option" where
  "demo_paragraph_error t =
     (if list_ex (\<lambda>c. c < 32 \<and> c \<noteq> 9 \<and> c \<noteq> 10 \<and> c \<noteq> 13) t then
        Some (Exn (lit ''ValueError'') (lit ''All strings must be XML compatible'') None)
      else None)"

definition demo_mktemp :: "ustr \<Rightarrow> path list \<Rightarrow> path" where
  "demo_mktemp suffix names =
     replicate (Suc (foldr (\<lambda>n m. max (length n) m) names 0)) 116 @ suffix"

definition demo_libs :: "node \<Rightarrow> ustr \<Rightarrow> (byte list) libs" where
  "demo_libs soup sep =
     \<lparr> parse_html = (\<lambda>s. Inr soup),
       b64decode = demo_b64decode,
       image_open = demo_image_open,
       png_save = demo_png_save,
       mktemp = demo_mktemp,
       io_error = (\<lambda>p. None),
       linesep = sep,
       encode_error =
         (\<lambda>s. Exn (lit ''UnicodeEncodeError'') (lit ''surrogates not allowed'') None),
       paragraph_error = demo_paragraph_error \<rparr>"

text \<open>A PNG file of one pixel (70 bytes), and its base64 encoding.\<close>

definition demo_png :: "byte list" where
  "demo_png =
     [137, 80, 78, 71, 13, 10, 26, 10, 0, 0, 0, 13, 73, 72, 68, 82, 0, 0, 0, 1, 0, 0,
      0, 1, 8, 6, 0, 0, 0, 31, 21, 196, 137, 0, 0, 0, 13, 73, 68, 65, 84, 120, 218,
      99, 100, 96, 248, 95, 15, 0, 2, 135, 1, 128, 235, 71, 186, 146, 0, 0, 0, 0, 73,
      69, 78, 68, 174, 66, 96, 130]"

definition demo_png_b64 :: ustr where
  "demo_png_b64 =
     lit ''iVBORw0KGgoAAAANSUhEUgAAAAEAAAABCAYAAAAfFcSJAAAA'' @
     lit ''DUlEQVR42mNkYPhfDwAChwGA60e6kgAAAABJRU5ErkJggg==''"

definition demo_src :: ustr where
  "demo_src = lit ''data:image/png;base64,'' @ demo_png_b64"

text \<open>A note with an image inside a paragraph, as the editor produces it after a paste.\<close>

definition demo_img :: node where
  "demo_img = Tag (lit ''img'') [(lit ''src'', demo_src)] []"

definition demo_p :: node where
  "demo_p = Tag (lit ''p'') []
     [NavigableString (lit ''Hi''), demo_img, Tag (lit ''b'') [] [NavigableString (lit ''!'')]]"

definition demo_body :: node where
  "demo_body = Tag (lit ''body'') [] [demo_p, Tag (lit ''div'') [] [NavigableString (lit ''x'')]]"

definition demo_soup :: node where
  "demo_soup = Tag (lit ''[document]'') [] [Tag (lit ''html'') [] [demo_body]]"

text \<open>The file system after that note was exported to \<open>n.docx\<close>.\<close>

definition demo_fs :: fs where
  "demo_fs =
     [(lit ''t.png'', Bytes demo_png),
      (lit ''n.docx'', Docx [Paragraph (lit ''Hi!''), Picture demo_png 3657600])]"

text \<open>A text without markup, and a note whose image source is a file name.\<close>

definition demo_plain_soup :: node where
  "demo_plain_soup = Tag (lit ''[document]'') [] [NavigableString (lit ''plain text'')]"

definition demo_bad_img :: node where
  "demo_bad_img = Tag (lit ''img'') [(lit ''src'', lit ''photo.png'')] []"

definition demo_bad_body :: node where
  "demo_bad_body =
     Tag (lit ''body'') [] [Tag (lit ''p'') [] [NavigableString (lit ''Hi'')], demo_bad_img]"

definition demo_bad_soup :: node where
  "demo_bad_soup = Tag (lit ''[document]'') [] [demo_bad_body]"

text \<open>
  A paragraph whose text holds the control character U+0001, in the markup
  \<open><body><p>a\<dots>b</p></body>\<close>.
\<close>

definition demo_ctrl_p :: node where
  "demo_ctrl_p = Tag (lit ''p'') [] [NavigableString [97, 1, 98]]"

definition demo_ctrl_body :: node where
  "demo_ctrl_body = Tag (lit ''body'') [] [demo_ctrl_p]"

definition demo_ctrl_soup :: node where
  "demo_ctrl_soup = Tag (lit ''[document]'') [] [demo_ctrl_body]"

definition demo_ctrl_html :: ustr where
  "demo_ctrl_html = lit ''<body><p>a'' @ [1] @ lit ''b</p></body>''"

text \<open>
  An image whose source has a comma inside the payload, after its fifth character: the
  second piece of the split is \<open>iVBOR\<close>, the text after the first comma is the whole
  payload with one comma in it.
\<close>

definition demo_cut_payload :: ustr where
  "demo_cut_payload =
     lit ''iVBOR,w0KGgoAAAANSUhEUgAAAAEAAAABCAYAAAAfFcSJAAAA'' @
     lit ''DUlEQVR42mNkYPhfDwAChwGA60e6kgAAAABJRU5ErkJggg==''"

definition demo_cut_src :: ustr where
  "demo_cut_src = lit ''data:image/png;base64,'' @ demo_cut_payload"

definition demo_cut_img :: node where
  "demo_cut_img = Tag (lit ''img'') [(lit ''src'', demo_cut_src)] []"

text \<open>
  An image whose payload has two exclamation marks after its fourth character, so that it
  is not base64, in a note that holds nothing else.
\<close>

definition demo_junk_payload :: ustr where
  "demo_junk_payload =
     lit ''iVBO!!Rw0KGgoAAAANSUhEUgAAAAEAAAABCAYAAAAfFcSJAAAA'' @
     lit ''DUlEQVR42mNkYPhfDwAChwGA60e6kgAAAABJRU5ErkJggg==''"

definition demo_junk_src :: ustr where
  "demo_junk_src = lit ''data:image/png;base64,'' @ demo_junk_payload"

definition demo_junk_img :: node where
  "demo_junk_img = Tag (lit ''img'') [(lit ''src'', demo_junk_src)] []"

definition demo_junk_body :: node where
  "demo_junk_body = Tag (lit ''body'') [] [demo_junk_img]"

definition demo_junk_soup :: node where
  "demo_junk_soup = Tag (lit ''[document]'') [] [demo_junk_body]"

definition demo_junk_html :: ustr where
  "demo_junk_html =
     lit ''<body><img src='' @ [34] @ demo_junk_src @ [34] @ lit ''></body>''"

text \<open>
  Opening a relative path for writing in a directory that holds regular files only, as a
  POSIX system answers: a path through a regular file is refused because that file is not
  a directory, any other path with a directory part because the directory is missing.
  \<open>demo_posix_libs\<close> is the concrete environment in front of a given file system.
\<close>

fun parent_paths :: "path \<Rightarrow> path list" where
  "parent_paths [] = []"
| "parent_paths (c # cs) = (if c = 47 then [[]] else []) @ map ((#) c) (parent_paths cs)"

definition NotADirectoryError :: "path \<Rightarrow> exn" where
  "NotADirectoryError p =
     Exn (lit ''NotADirectoryError'') (lit ''[Errno 20] Not a directory: '' @ [39] @ p @ [39]) None"

definition NoSuchFileError :: "path \<Rightarrow> exn" where
  "NoSuchFileError p =
     Exn (lit ''FileNotFoundError'')
       (lit ''[Errno 2] No such file or directory: '' @ [39] @ p @ [39]) None"

definition demo_posix_io_error :: "path list \<Rightarrow> path \<Rightarrow> exn option" where
  "demo_posix_io_error names p =
     (if list_ex (\<lambda>q. q \<in> set names) (parent_paths p) then Some (NotADirectoryError p)
      else if 47 \<in> set p then Some (NoSuchFileError p)
      else None)"

definition demo_posix_libs :: "node \<Rightarrow> ustr \<Rightarrow> fs \<Rightarrow> (byte list) libs" where
  "demo_posix_libs soup sep fs =
     (demo_libs soup sep) \<lparr> io_error := demo_posix_io_error (map fst fs) \<rparr>"

section \<open>The specification's reading of the image source\<close>

text \<open>
  The payload as the specification words it: the source is split at its first comma and the
  remainder is taken. The pipeline built on it is what claim C2 describes; it is compared
  with \<open>png_of\<close>, which follows the code.
\<close>

definition after_first_comma :: "ustr \<Rightarrow> exn + ustr" where
  "after_first_comma s =
     (case dropWhile (\<lambda>c. c \<noteq> 44) s of [] \<Rightarrow> Inl IndexError | c # rest \<Rightarrow> Inr rest)"

definition spec_png_of :: "'i libs \<Rightarrow> node \<Rightarrow> exn + byte list" where
  "spec_png_of L element =
     (case getitem element (lit ''src'') of Inl e \<Rightarrow> Inl e | Inr src \<Rightarrow>
      (case after_first_comma src of Inl e \<Rightarrow> Inl e | Inr img_data \<Rightarrow>
       (case b64decode L img_data of Inl e \<Rightarrow> Inl e | Inr image_bytes \<Rightarrow>
        (case image_open L image_bytes of Inl e \<Rightarrow> Inl e | Inr img \<Rightarrow> png_save L img))))"

section \<open>Two descriptions of the platform\<close>

text \<open>
  Two records agree on what an export computes when they hold the same parser, decoders,
  encoder, line separator and codec and paragraph errors; the names of temporary files and
  the errors of opening a path may differ.
\<close>

definition same_libraries :: "'i libs \<Rightarrow> 'i libs \<Rightarrow> bool" where
  "same_libraries L2 L1 \<longleftrightarrow>
     parse_html L2 = parse_html L1 \<and> b64decode L2 = b64decode L1 \<and>
     image_open L2 = image_open L1 \<and> png_save L2 = png_save L1 \<and>
     linesep L2 = linesep L1 \<and> encode_error L2 = encode_error L1 \<and>
     paragraph_error L2 = paragraph_error L1"

section \<open>Basic facts\<close>

lemma endswith_iff: "endswith s suffix \<longleftrightarrow> (\<exists>pre. s = pre @ suffix)"
proof
  assume h: "endswith s suffix"
  then have "s = take (length s - length suffix) s @ suffix"
    unfolding endswith_def by (metis append_take_drop_id)
  then show "\<exists>pre. s = pre @ suffix" by blast
next
  assume "\<exists>pre. s = pre @ suffix"
  then show "endswith s suffix" unfolding endswith_def by auto
qed

lemma endswith_append: "endswith (xs @ ys) ys"
  by (simp add: endswith_def)

lemma split_no_sep: "sep \<notin> set s \<Longrightarrow> split_on sep s = [s]"
  by (induction s) auto

lemma split_on_unfold:
  "split_on sep s =
     takeWhile (\<lambda>c. c \<noteq> sep) s #
       (case dropWhile (\<lambda>c. c \<noteq> sep) s of [] \<Rightarrow> [] | c # rest \<Rightarrow> split_on sep rest)"
  by (induction s) auto

lemma second_piece:
  assumes "list_getitem (split_on sep s) 1 = Inr d"
  shows "\<exists>c rest. dropWhile (\<lambda>c. c \<noteq> sep) s = c # rest \<and> d = takeWhile (\<lambda>c. c \<noteq> sep) rest"
proof (cases "dropWhile (\<lambda>c. c \<noteq> sep) s")
  case Nil
  then have "sep \<notin> set s" by (auto simp: dropWhile_eq_Nil_conv)
  then have "split_on sep s = [s]" by (rule split_no_sep)
  then show ?thesis using assms by (simp add: list_getitem_def)
next
  case (Cons c rest)
  then have "split_on sep s = takeWhile (\<lambda>c. c \<noteq> sep) s # split_on sep rest"
    using split_on_unfold [of sep s] by simp
  moreover have "split_on sep rest = takeWhile (\<lambda>c. c \<noteq> sep) rest # tl (split_on sep rest)"
    using split_on_unfold [of sep rest] by simp
  ultimately have "split_on sep s ! 1 = takeWhile (\<lambda>c. c \<noteq> sep) rest"
    by (metis One_nat_def nth_Cons_0 nth_Cons_Suc)
  then show ?thesis using assms Cons by (auto simp: list_getitem_def split: if_splits)
qed

lemma second_piece_spec:
  assumes "list_getitem (split_on 44 src) 1 = Inr d"
  shows "\<exists>rest. after_first_comma src = Inr rest \<and> d = takeWhile (\<lambda>c. c \<noteq> 44) rest"
  using second_piece [OF assms] by (auto simp: after_first_comma_def)

lemma lit_img_neq_p: "lit ''img'' \<noteq> lit ''p''"
  by (simp add: lit_def)

lemma root_cause_reraise: "root_cause (reraise prefix e) = root_cause e"
  by (simp add: reraise_def)

lemma exn_class_reraise: "exn_class (reraise prefix e) = lit ''Exception''"
  by (simp add: reraise_def)

lemma str_reraise: "str (reraise prefix e) = lit prefix @ str e"
  by (simp add: reraise_def)

lemma fst_try_except:
  "fst (try_except prefix r) = (case fst r of Inl e \<Rightarrow> Inl (reraise prefix e) | Inr v \<Rightarrow> Inr v)"
  by (simp add: try_except_def split: prod.splits sum.splits)

lemma snd_try_except: "snd (try_except prefix r) = snd r"
  by (simp add: try_except_def split: prod.splits sum.splits)

lemma fst_case_result:
  "fst (case r of (Inl e, fs') \<Rightarrow> (Inl (f e), fs') | (Inr u, fs') \<Rightarrow> (Inr v, fs')) =
     (case fst r of Inl e \<Rightarrow> Inl (f e) | Inr u \<Rightarrow> Inr v)"
  by (simp split: prod.splits sum.splits)

lemma snd_case_result:
  "snd (case r of (Inl e, fs') \<Rightarrow> (Inl (f e), fs') | (Inr u, fs') \<Rightarrow> (Inr v, fs')) = snd r"
  by (simp split: prod.splits sum.splits)

lemma add_picture_written:
  "add_picture p w document (AList.update p (Bytes png) fs) =
     (Inr (document @ [Picture png w]), AList.update p (Bytes png) fs)"
  by (simp add: add_picture_def update_conv')

lemma update_fresh: "k \<notin> fst ` set al \<Longrightarrow> AList.update k v al = al @ [(k, v)]"
  by (induction al) auto

lemma img_branch_fst:
  "fst (NoteApp_img_branch L el doc fs) =
     (case png_of L el of Inl e \<Rightarrow> Inl e | Inr png \<Rightarrow> Inr (doc @ [Picture png (Inches 4)]))"
  by (simp add: NoteApp_img_branch_def png_of_def add_picture_written Let_def split: sum.splits)

lemma img_branch_snd:
  "png_of L el = Inr png \<Longrightarrow>
   snd (NoteApp_img_branch L el doc fs) =
     AList.update (mktemp L (lit ''.png'') (map fst fs)) (Bytes png) fs"
  by (auto simp add: NoteApp_img_branch_def png_of_def add_picture_written Let_def split: sum.splits)

lemma model_img_eq:
  "NoteModel_add_image_to_doc L doc el fs =
     try_except ''Image processing failed: '' (NoteApp_img_branch L el doc fs)"
  by (simp add: NoteModel_add_image_to_doc_def NoteApp_img_branch_def)

lemma model_visit_rel:
  "NoteModel_visit L el doc fs =
     (if name el = Some (lit ''p'') then NoteApp_visit L el doc fs
      else try_except ''Image processing failed: '' (NoteApp_visit L el doc fs))"
  by (simp add: NoteModel_visit_def NoteApp_visit_def model_img_eq try_except_def)

lemma model_loop_rel:
  assumes "NoteApp_loop L els doc fs = (r, fs')"
  shows "(\<forall>d. r = Inr d \<longrightarrow> NoteModel_loop L els doc fs = (Inr d, fs')) \<and>
         (\<forall>e. r = Inl e \<longrightarrow>
            NoteModel_loop L els doc fs = (Inl e, fs') \<or>
            NoteModel_loop L els doc fs =
              (Inl (reraise ''Image processing failed: '' e), fs'))"
  using assms
proof (induction els arbitrary: doc fs)
  case Nil
  then show ?case by auto
next
  case (Cons el els)
  obtain r0 fs0 where v: "NoteApp_visit L el doc fs = (r0, fs0)"
    by (cases "NoteApp_visit L el doc fs")
  show ?case
  proof (cases r0)
    case (Inl e0)
    then have "r = Inl e0" "fs' = fs0" using Cons.prems v by simp_all
    then show ?thesis using v Inl
      by (simp add: model_visit_rel try_except_def)
  next
    case (Inr d0)
    then have l: "NoteApp_loop L els d0 fs0 = (r, fs')" using Cons.prems v by simp
    have "NoteModel_visit L el doc fs = (Inr d0, fs0)"
      using v Inr by (simp add: model_visit_rel try_except_def)
    then have "NoteModel_loop L (el # els) doc fs = NoteModel_loop L els d0 fs0" by simp
    then show ?thesis using Cons.IH [OF l] by simp
  qed
qed

lemma visit_fst:
  "fst (NoteApp_visit L el doc fs) =
     (case contribution L el of Inl e \<Rightarrow> Inl e | Inr xs \<Rightarrow> Inr (doc @ xs))"
  by (simp add: NoteApp_visit_def contribution_def img_branch_fst add_paragraph_def
      split: sum.splits option.splits)

lemma loop_fst:
  "fst (NoteApp_loop L els doc fs) =
     (case contributions L els of Inl e \<Rightarrow> Inl e | Inr xs \<Rightarrow> Inr (doc @ xs))"
proof (induction els arbitrary: doc fs)
  case Nil
  show ?case by simp
next
  case (Cons el els)
  obtain r fs' where v: "NoteApp_visit L el doc fs = (r, fs')" by (cases "NoteApp_visit L el doc fs")
  have f: "r = (case contribution L el of Inl e \<Rightarrow> Inl e | Inr xs \<Rightarrow> Inr (doc @ xs))"
    using visit_fst [of L el doc fs] v by simp
  show ?case
  proof (cases "contribution L el")
    case (Inl e)
    then show ?thesis using v f by simp
  next
    case (Inr xs)
    then have "r = Inr (doc @ xs)" using f by simp
    then show ?thesis using v Inr Cons.IH [of "doc @ xs" fs'] by (simp split: sum.splits)
  qed
qed

lemma contributions_Inl_iff:
  "(\<exists>e. contributions L els = Inl e) \<longleftrightarrow> (\<exists>el \<in> set els. \<exists>e. contribution L el = Inl e)"
  by (induction els) (auto split: sum.splits)

lemma descendants_split:
  "P \<in> set (descendants t) \<Longrightarrow> \<exists>xs ys. descendants t = xs @ P # descendants P @ ys"
proof (induction t)
  case (Tag n as cs)
  from Tag.prems obtain c where c: "c \<in> set cs" "P = c \<or> P \<in> set (descendants c)"
    by auto
  from c(1) obtain cs1 cs2 where cs: "cs = cs1 @ c # cs2" by (meson split_list)
  let ?f = "\<lambda>c. c # descendants c"
  have d: "descendants (Tag n as cs) = concat (map ?f cs1) @ c # descendants c @ concat (map ?f cs2)"
    by (simp add: cs)
  from c(2) show ?case
  proof
    assume "P = c"
    then show ?thesis using d by blast
  next
    assume "P \<in> set (descendants c)"
    then obtain xs ys where "descendants c = xs @ P # descendants P @ ys"
      using Tag.IH [OF c(1)] by blast
    then have "descendants (Tag n as cs) =
        (concat (map ?f cs1) @ c # xs) @ P # descendants P @ (ys @ concat (map ?f cs2))"
      using d by simp
    then show ?thesis by blast
  qed
qed simp_all

lemma contribution_Inr: "contribution L e = Inr xs \<Longrightarrow> xs = node_items L e"
  by (auto simp: contribution_def node_items_def add_paragraph_def
      split: if_splits sum.splits option.splits)

lemma contributions_Inr: "contributions L els = Inr items \<Longrightarrow> items = concat (map (node_items L) els)"
  by (induction els arbitrary: items) (auto split: sum.splits dest: contribution_Inr)

lemma paragraph_texts_append: "paragraph_texts (xs @ ys) = paragraph_texts xs @ paragraph_texts ys"
  by (induction xs rule: paragraph_texts.induct) auto

lemma picture_blobs_append: "picture_blobs (xs @ ys) = picture_blobs xs @ picture_blobs ys"
  by (induction xs rule: picture_blobs.induct) auto

lemma paragraph_texts_node_items:
  "paragraph_texts (node_items L e) = (if name e = Some (lit ''p'') then [get_text e] else [])"
  by (simp add: node_items_def split: sum.splits)

lemma paragraph_texts_concat:
  "paragraph_texts (concat (map (node_items L) els)) =
     map get_text (filter (\<lambda>e. name e = Some (lit ''p'')) els)"
  by (induction els) (simp_all add: paragraph_texts_append paragraph_texts_node_items)

lemma picture_blobs_node_items:
  "picture_blobs (node_items L el) = [] \<or> (\<exists>png. picture_blobs (node_items L el) = [png])"
  by (simp add: node_items_def split: sum.splits)

lemma img_branch_fs:
  "NoteApp_img_branch L el doc fs = (r, fs1) \<Longrightarrow>
   fs1 = fs \<or> (\<exists>bs. fs1 = AList.update (mktemp L (lit ''.png'') (map fst fs)) (Bytes bs) fs)"
  by (auto simp: NoteApp_img_branch_def add_picture_written Let_def split: sum.splits)

lemma visit_fs:
  "NoteApp_visit L el doc fs = (r, fs1) \<Longrightarrow>
   fs1 = fs \<or> (\<exists>bs. fs1 = AList.update (mktemp L (lit ''.png'') (map fst fs)) (Bytes bs) fs)"
  by (auto simp: NoteApp_visit_def split: if_splits dest: img_branch_fs)

lemma visit_only_bytes:
  "NoteApp_visit L el doc fs = (r, fs1) \<Longrightarrow>
   map_of fs1 k = map_of fs k \<or> (\<exists>bs. map_of fs1 k = Some (Bytes bs))"
  by (auto dest!: visit_fs simp: update_conv')

lemma loop_only_bytes:
  "NoteApp_loop L els doc fs = (r, fs1) \<Longrightarrow>
   map_of fs1 k = map_of fs k \<or> (\<exists>bs. map_of fs1 k = Some (Bytes bs))"
proof (induction els arbitrary: doc fs)
  case Nil
  then show ?case by simp
next
  case (Cons el els)
  obtain r0 fs0 where v: "NoteApp_visit L el doc fs = (r0, fs0)" by (cases "NoteApp_visit L el doc fs")
  have s0: "map_of fs0 k = map_of fs k \<or> (\<exists>bs. map_of fs0 k = Some (Bytes bs))"
    using visit_only_bytes [OF v] .
  show ?case
  proof (cases r0)
    case (Inl e)
    then have "fs1 = fs0" using Cons.prems v by simp
    then show ?thesis using s0 by simp
  next
    case (Inr doc0)
    then have "NoteApp_loop L els doc0 fs0 = (r, fs1)" using Cons.prems v by simp
    from Cons.IH [OF this] s0 show ?thesis by auto
  qed
qed

lemma visit_success:
  assumes "NoteApp_visit L el doc fs = (Inr doc1, fs1)"
  shows "doc1 = doc @ node_items L el \<and>
         fs1 = (case picture_blobs (node_items L el) of [] \<Rightarrow> fs
                | png # rest \<Rightarrow> AList.update (mktemp L (lit ''.png'') (map fst fs)) (Bytes png) fs)"
proof (cases "name el = Some (lit ''p'')")
  case True
  then show ?thesis using assms
    by (auto simp: NoteApp_visit_def node_items_def add_paragraph_def split: option.splits)
next
  case False
  show ?thesis
  proof (cases "name el = Some (lit ''img'')")
    case False
    with \<open>name el \<noteq> Some (lit ''p'')\<close> show ?thesis
      using assms by (auto simp: NoteApp_visit_def node_items_def)
  next
    case True
    then have b: "NoteApp_img_branch L el doc fs = (Inr doc1, fs1)"
      using assms \<open>name el \<noteq> Some (lit ''p'')\<close> by (simp add: NoteApp_visit_def)
    then obtain png where p: "png_of L el = Inr png" "doc1 = doc @ [Picture png (Inches 4)]"
      using img_branch_fst [of L el doc fs] by (auto split: sum.splits)
    have "fs1 = AList.update (mktemp L (lit ''.png'') (map fst fs)) (Bytes png) fs"
      using img_branch_snd [OF p(1), of doc fs] b by simp
    then show ?thesis using p True \<open>name el \<noteq> Some (lit ''p'')\<close> by (simp add: node_items_def)
  qed
qed

lemma visit_p:
  "name e = Some (lit ''p'') \<Longrightarrow> paragraph_error L (get_text e) = None \<Longrightarrow>
   NoteApp_visit L e d f = (Inr (d @ [Paragraph (get_text e)]), f)"
  by (simp add: NoteApp_visit_def add_paragraph_def)

lemma visit_p_refused:
  "name e = Some (lit ''p'') \<Longrightarrow> paragraph_error L (get_text e) = Some x \<Longrightarrow>
   NoteApp_visit L e d f = (Inl x, f)"
  by (simp add: NoteApp_visit_def add_paragraph_def)

lemma visit_other:
  "name e \<noteq> Some (lit ''p'') \<Longrightarrow> name e \<noteq> Some (lit ''img'') \<Longrightarrow>
   NoteApp_visit L e d f = (Inr d, f)"
  by (simp add: NoteApp_visit_def)

lemma loop_temp_files:
  assumes "\<forall>names. mktemp L (lit ''.png'') names \<notin> set names"
    and "NoteApp_loop L els doc fs = (Inr doc1, fs1)"
  shows "\<exists>temps. fs1 = fs @ zip temps (map Bytes (picture_blobs (concat (map (node_items L) els)))) \<and>
           length temps = length (picture_blobs (concat (map (node_items L) els))) \<and>
           distinct temps \<and> set temps \<inter> fst ` set fs = {}"
  using assms(2)
proof (induction els arbitrary: doc fs)
  case Nil
  then show ?case by simp
next
  case (Cons el els)
  let ?tmp = "mktemp L (lit ''.png'') (map fst fs)"
  let ?rest = "picture_blobs (concat (map (node_items L) els))"
  obtain r0 fs0 where v: "NoteApp_visit L el doc fs = (r0, fs0)"
    by (cases "NoteApp_visit L el doc fs")
  with Cons.prems obtain doc0 where r0: "r0 = Inr doc0"
    by (cases r0) auto
  have l: "NoteApp_loop L els doc0 fs0 = (Inr doc1, fs1)"
    using Cons.prems v r0 by simp
  from Cons.IH [OF l] obtain temps where
    t: "fs1 = fs0 @ zip temps (map Bytes ?rest)" "length temps = length ?rest"
       "distinct temps" "set temps \<inter> fst ` set fs0 = {}"
    by blast
  have f0: "fs0 = (case picture_blobs (node_items L el) of [] \<Rightarrow> fs
                   | png # rest \<Rightarrow> AList.update ?tmp (Bytes png) fs)"
    using visit_success [of L el doc fs doc0 fs0] v r0 by simp
  have fresh: "?tmp \<notin> fst ` set fs"
    using assms(1) by (metis set_map)
  from picture_blobs_node_items [of L el] show ?case
  proof
    assume e: "picture_blobs (node_items L el) = []"
    then have "fs0 = fs" using f0 by simp
    then show ?thesis using t e by (auto simp: picture_blobs_append)
  next
    assume "\<exists>png. picture_blobs (node_items L el) = [png]"
    then obtain png where e: "picture_blobs (node_items L el) = [png]" by blast
    then have f: "fs0 = fs @ [(?tmp, Bytes png)]"
      using f0 fresh by (simp add: update_fresh)
    have a: "fs1 = fs @ zip (?tmp # temps) (map Bytes (png # ?rest))"
      using t(1) f by simp
    have b: "?tmp \<notin> set temps" using t(4) f by auto
    have c: "set (?tmp # temps) \<inter> fst ` set fs = {}" using t(4) f fresh by auto
    have "fs1 = fs @ zip (?tmp # temps)
             (map Bytes (picture_blobs (concat (map (node_items L) (el # els))))) \<and>
          length (?tmp # temps) = length (picture_blobs (concat (map (node_items L) (el # els)))) \<and>
          distinct (?tmp # temps) \<and> set (?tmp # temps) \<inter> fst ` set fs = {}"
      using a b c t(2) t(3) e by (simp add: picture_blobs_append)
    then show ?thesis by blast
  qed
qed

lemma app_docx_success:
  assumes "NoteApp_save_as_docx L c p fs = (Inr u, fs')"
    and "parse_html L c = Inr soup" and "body soup = Some b"
  shows "\<exists>fs1. NoteApp_loop L (descendants b) [] fs =
             (Inr (concat (map (node_items L) (descendants b))), fs1) \<and>
           contributions L (descendants b) = Inr (concat (map (node_items L) (descendants b))) \<and>
           io_error L p = None \<and>
           fs' = AList.update p (Docx (concat (map (node_items L) (descendants b)))) fs1"
proof -
  obtain r fs1 where l: "NoteApp_loop L (descendants b) [] fs = (r, fs1)"
    by (cases "NoteApp_loop L (descendants b) [] fs")
  from assms l obtain doc where r: "r = Inr doc"
    by (cases r) (auto simp: NoteApp_save_as_docx_def)
  have "fst (NoteApp_loop L (descendants b) [] fs) = Inr doc" using l r by simp
  then have c: "contributions L (descendants b) = Inr doc"
    using loop_fst [of L "descendants b" "[]" fs] by (auto split: sum.splits)
  then have d: "doc = concat (map (node_items L) (descendants b))"
    by (rule contributions_Inr)
  have "document_save L doc p fs1 = (Inr u, fs')"
    using assms l r by (simp add: NoteApp_save_as_docx_def)
  then have "io_error L p = None \<and> fs' = AList.update p (Docx doc) fs1"
    by (auto simp: document_save_def split: option.splits)
  then show ?thesis using l r c d by simp
qed

lemma app_docx_success_parse:
  "NoteApp_save_as_docx L c p fs = (Inr u, fs') \<Longrightarrow>
   \<exists>soup b. parse_html L c = Inr soup \<and> body soup = Some b"
  by (auto simp: NoteApp_save_as_docx_def split: sum.splits option.splits)

lemma model_docx_of_app_success:
  assumes "NoteApp_save_as_docx L c p fs = (Inr u, fs')"
  shows "NoteModel_save_as_docx L c p fs = (Inr u, fs')"
proof -
  obtain soup where ps: "parse_html L c = Inr soup"
    using assms by (cases "parse_html L c") (auto simp: NoteApp_save_as_docx_def)
  obtain b where bs: "body soup = Some b"
    using assms ps by (cases "body soup") (auto simp: NoteApp_save_as_docx_def)
  obtain r fs1 where l: "NoteApp_loop L (descendants b) [] fs = (r, fs1)"
    by (cases "NoteApp_loop L (descendants b) [] fs")
  obtain d where r: "r = Inr d"
    using assms ps bs l by (cases r) (auto simp: NoteApp_save_as_docx_def)
  have "NoteModel_loop L (descendants b) [] fs = (Inr d, fs1)"
    using model_loop_rel [OF l] r by simp
  then show ?thesis
    using assms ps bs l r
    by (auto simp: NoteApp_save_as_docx_def NoteModel_save_as_docx_def try_except_def
        split: sum.splits prod.splits)
qed

lemma model_docx_of_app_failure:
  assumes "NoteApp_save_as_docx L c p fs = (Inl e, fs')"
  shows "NoteModel_save_as_docx L c p fs = (Inl (reraise ''DOCX conversion failed: '' e), fs') \<or>
   NoteModel_save_as_docx L c p fs =
     (Inl (reraise ''DOCX conversion failed: '' (reraise ''Image processing failed: '' e)), fs')"
proof (cases "parse_html L c")
  case (Inl x)
  then show ?thesis using assms
    by (simp add: NoteApp_save_as_docx_def NoteModel_save_as_docx_def try_except_def)
next
  case (Inr soup)
  show ?thesis
  proof (cases "body soup")
    case None
    then show ?thesis using assms Inr
      by (simp add: NoteApp_save_as_docx_def NoteModel_save_as_docx_def try_except_def)
  next
    case (Some b)
    obtain r fs1 where l: "NoteApp_loop L (descendants b) [] fs = (r, fs1)"
      by (cases "NoteApp_loop L (descendants b) [] fs")
    show ?thesis
    proof (cases r)
      case (Inl x)
      then have "x = e" "fs1 = fs'" using assms Inr Some l
        by (simp_all add: NoteApp_save_as_docx_def)
      then show ?thesis using model_loop_rel [OF l] Inl Inr Some
        by (auto simp: NoteModel_save_as_docx_def try_except_def)
    next
      case r: (Inr d)
      then have m: "NoteModel_loop L (descendants b) [] fs = (Inr d, fs1)"
        using model_loop_rel [OF l] by simp
      have "document_save L d p fs1 = (Inl e, fs')"
        using assms Inr Some l r by (simp add: NoteApp_save_as_docx_def)
      then show ?thesis using m Inr Some
        by (simp add: NoteModel_save_as_docx_def try_except_def)
    qed
  qed
qed

lemma model_docx_snd:
  "snd (NoteModel_save_as_docx L c p fs) = snd (NoteApp_save_as_docx L c p fs)"
proof -
  obtain r fs0 where a: "NoteApp_save_as_docx L c p fs = (r, fs0)"
    by (cases "NoteApp_save_as_docx L c p fs")
  show ?thesis
  proof (cases r)
    case (Inl e)
    then show ?thesis using model_docx_of_app_failure [of L c p fs e fs0] a by auto
  next
    case (Inr u)
    then show ?thesis using model_docx_of_app_success [of L c p fs u fs0] a by auto
  qed
qed

lemma model_save_to_file_docx:
  "endswith p (lit ''.docx'') \<Longrightarrow>
   NoteModel_save_to_file L c p fs =
     (case NoteModel_save_as_docx L c p fs of
        (Inl e, fs') \<Rightarrow> (Inl (reraise ''Save failed: '' e), fs')
      | (Inr u, fs') \<Rightarrow> (Inr True, fs'))"
  by (simp add: NoteModel_save_to_file_def try_except_def split: prod.splits sum.splits)

lemma model_save_to_file_text:
  "\<not> endswith p (lit ''.docx'') \<Longrightarrow>
   NoteModel_save_to_file L c p fs =
     (case write_text L p c fs of
        (Inl e, fs') \<Rightarrow> (Inl (reraise ''Save failed: '' e), fs')
      | (Inr u, fs') \<Rightarrow> (Inr True, fs'))"
  by (simp add: NoteModel_save_to_file_def try_except_def split: prod.splits sum.splits)

lemma model_save_to_file_Inl:
  "NoteModel_save_to_file L c p fs = (Inl e, fs') \<Longrightarrow> \<exists>cause. e = reraise ''Save failed: '' cause"
  by (auto simp: NoteModel_save_to_file_def try_except_def split: prod.splits sum.splits if_splits)

lemma app_save_to_file_text:
  "\<not> endswith p (lit ''.docx'') \<Longrightarrow> NoteApp_save_to_file L c p fs = write_text L p c fs"
  by (simp add: NoteApp_save_to_file_def)

lemma model_save_snd:
  "snd (NoteModel_save_to_file L c p fs) = snd (NoteApp_save_to_file L c p fs)"
proof (cases "endswith p (lit ''.docx'')")
  case True
  then show ?thesis
    by (simp add: model_save_to_file_docx snd_case_result model_docx_snd NoteApp_save_to_file_def)
next
  case False
  then show ?thesis
    by (simp add: model_save_to_file_text snd_case_result app_save_to_file_text)
qed

lemma model_save_success_iff:
  "fst (NoteModel_save_to_file L c p fs) = Inr True \<longleftrightarrow>
   fst (NoteApp_save_to_file L c p fs) = Inr ()"
proof (cases "endswith p (lit ''.docx'')")
  case True
  obtain r fs0 where a: "NoteApp_save_as_docx L c p fs = (r, fs0)"
    by (cases "NoteApp_save_as_docx L c p fs")
  show ?thesis
  proof (cases r)
    case (Inl e)
    then show ?thesis
      using model_docx_of_app_failure [of L c p fs e fs0] a True
      by (auto simp: model_save_to_file_docx NoteApp_save_to_file_def)
  next
    case (Inr u)
    then show ?thesis
      using model_docx_of_app_success [of L c p fs u fs0] a True
      by (auto simp: model_save_to_file_docx NoteApp_save_to_file_def)
  qed
next
  case False
  then show ?thesis
    by (cases "write_text L p c fs")
      (auto simp: model_save_to_file_text app_save_to_file_text split: sum.splits)
qed

lemma malformed_png_of:
  assumes "getitem el (lit ''src'') = Inr src"
    and "44 \<notin> set src \<or>
         (\<exists>d e. list_getitem (split_on 44 src) 1 = Inr d \<and> b64decode L d = Inl e) \<or>
         (\<exists>d bs e. list_getitem (split_on 44 src) 1 = Inr d \<and> b64decode L d = Inr bs \<and>
            image_open L bs = Inl e)"
  shows "\<exists>e. png_of L el = Inl e"
  using assms by (auto simp: png_of_def split_no_sep list_getitem_def)

lemma loop_failure:
  assumes "el \<in> set els" and "contribution L el = Inl e"
  shows "\<exists>e' fs'. NoteApp_loop L els doc fs = (Inl e', fs')"
proof -
  obtain e' where "contributions L els = Inl e'"
    using assms contributions_Inl_iff [of L els] by blast
  then have "fst (NoteApp_loop L els doc fs) = Inl e'"
    by (simp add: loop_fst)
  then show ?thesis by (cases "NoteApp_loop L els doc fs") auto
qed

lemma app_docx_loop_failure:
  assumes "parse_html L c = Inr soup" and "body soup = Some b"
    and "NoteApp_loop L (descendants b) [] fs = (Inl e, fs')"
  shows "NoteApp_save_as_docx L c p fs = (Inl e, fs')"
  using assms by (simp add: NoteApp_save_as_docx_def)

lemma translate_newlines_id:
  "sep = [10] \<or> 10 \<notin> set s \<Longrightarrow> translate_newlines sep s = s"
  by (induction s) (auto simp: translate_newlines_def)

lemma write_text_success:
  assumes "io_error L p = None"
    and "utf8_encode (translate_newlines (linesep L) s) = Some bs"
  shows "write_text L p s fs = (Inr (), AList.update p (Bytes bs) fs)"
  using assms by (simp add: write_text_def)

lemma write_text_same_platform:
  assumes "io_error L' = io_error L" and "linesep L' = linesep L"
    and "encode_error L' = encode_error L"
  shows "write_text L' p s fs = write_text L p s fs"
  using assms by (simp add: write_text_def Let_def split: option.splits)

lemma write_text_no_docx:
  "write_text L p s fs = (r, fs') \<Longrightarrow> map_of fs' k = Some (Docx d) \<Longrightarrow>
   map_of fs k = Some (Docx d)"
  by (auto simp: write_text_def Let_def update_conv' split: option.splits if_splits)

section \<open>Two platforms with the same libraries\<close>

lemma png_of_same: "same_libraries L2 L1 \<Longrightarrow> png_of L2 el = png_of L1 el"
  by (simp add: same_libraries_def png_of_def split: sum.splits)

lemma contribution_same: "same_libraries L2 L1 \<Longrightarrow> contribution L2 el = contribution L1 el"
  using png_of_same [of L2 L1 el]
  by (simp add: contribution_def add_paragraph_def same_libraries_def)

lemma contributions_same:
  "same_libraries L2 L1 \<Longrightarrow> contributions L2 els = contributions L1 els"
  by (induction els) (simp_all add: contribution_same split: sum.splits)

lemma node_items_same: "same_libraries L2 L1 \<Longrightarrow> node_items L2 el = node_items L1 el"
  by (simp add: node_items_def png_of_same)

lemma visit_fst_same:
  "same_libraries L2 L1 \<Longrightarrow>
   fst (NoteApp_visit L2 el doc fs2) = fst (NoteApp_visit L1 el doc fs1)"
  by (simp add: visit_fst contribution_same)

lemma loop_fst_same:
  "same_libraries L2 L1 \<Longrightarrow>
   fst (NoteApp_loop L2 els doc fs2) = fst (NoteApp_loop L1 els doc fs1)"
  by (simp add: loop_fst contributions_same)

lemma model_visit_fst_same:
  "same_libraries L2 L1 \<Longrightarrow>
   fst (NoteModel_visit L2 el doc fs2) = fst (NoteModel_visit L1 el doc fs1)"
  using visit_fst_same [of L2 L1 el doc fs2 fs1]
  by (simp add: model_visit_rel fst_try_except)

lemma model_loop_fst_same:
  assumes "same_libraries L2 L1"
  shows "fst (NoteModel_loop L2 els doc fs2) = fst (NoteModel_loop L1 els doc fs1)"
proof (induction els arbitrary: doc fs2 fs1)
  case Nil
  show ?case by simp
next
  case (Cons el els)
  obtain r2 g2 where v2: "NoteModel_visit L2 el doc fs2 = (r2, g2)"
    by (cases "NoteModel_visit L2 el doc fs2")
  obtain r1 g1 where v1: "NoteModel_visit L1 el doc fs1 = (r1, g1)"
    by (cases "NoteModel_visit L1 el doc fs1")
  have e: "r2 = r1"
    using model_visit_fst_same [OF assms, of el doc fs2 fs1] v2 v1 by simp
  show ?case
  proof (cases r1)
    case (Inl x)
    then show ?thesis using v2 v1 e by simp
  next
    case (Inr d)
    then show ?thesis using v2 v1 e Cons.IH [of d g2 g1] by simp
  qed
qed

lemma document_save_fst_same:
  "io_error L2 p = io_error L1 p \<Longrightarrow>
   fst (document_save L2 doc p fs2) = fst (document_save L1 doc p fs1)"
  by (simp add: document_save_def split: option.splits)

lemma app_docx_fst_same:
  assumes "same_libraries L2 L1" and "io_error L2 p = io_error L1 p"
  shows "fst (NoteApp_save_as_docx L2 c p fs2) = fst (NoteApp_save_as_docx L1 c p fs1)"
proof -
  have ph: "parse_html L2 c = parse_html L1 c" using assms(1) by (simp add: same_libraries_def)
  show ?thesis
  proof (cases "parse_html L1 c")
    case (Inl e)
    then show ?thesis using ph by (simp add: NoteApp_save_as_docx_def)
  next
    case (Inr soup)
    show ?thesis
    proof (cases "body soup")
      case None
      then show ?thesis using Inr ph by (simp add: NoteApp_save_as_docx_def)
    next
      case (Some b)
      obtain r2 g2 where l2: "NoteApp_loop L2 (descendants b) [] fs2 = (r2, g2)"
        by (cases "NoteApp_loop L2 (descendants b) [] fs2")
      obtain r1 g1 where l1: "NoteApp_loop L1 (descendants b) [] fs1 = (r1, g1)"
        by (cases "NoteApp_loop L1 (descendants b) [] fs1")
      have e: "r2 = r1"
        using loop_fst_same [OF assms(1), of "descendants b" "[]" fs2 fs1] l2 l1 by simp
      show ?thesis
        using document_save_fst_same [OF assms(2), of _ g2 g1]
        by (cases r1) (simp_all add: NoteApp_save_as_docx_def Inr Some ph l2 l1 e)
    qed
  qed
qed

lemma model_docx_fst_same:
  assumes "same_libraries L2 L1" and "io_error L2 p = io_error L1 p"
  shows "fst (NoteModel_save_as_docx L2 c p fs2) = fst (NoteModel_save_as_docx L1 c p fs1)"
proof -
  have ph: "parse_html L2 c = parse_html L1 c" using assms(1) by (simp add: same_libraries_def)
  show ?thesis
  proof (cases "parse_html L1 c")
    case (Inl e)
    then show ?thesis using ph by (simp add: NoteModel_save_as_docx_def try_except_def)
  next
    case (Inr soup)
    show ?thesis
    proof (cases "body soup")
      case None
      then show ?thesis using Inr ph by (simp add: NoteModel_save_as_docx_def try_except_def)
    next
      case (Some b)
      obtain r2 g2 where l2: "NoteModel_loop L2 (descendants b) [] fs2 = (r2, g2)"
        by (cases "NoteModel_loop L2 (descendants b) [] fs2")
      obtain r1 g1 where l1: "NoteModel_loop L1 (descendants b) [] fs1 = (r1, g1)"
        by (cases "NoteModel_loop L1 (descendants b) [] fs1")
      have e: "r2 = r1"
        using model_loop_fst_same [OF assms(1), of "descendants b" "[]" fs2 fs1] l2 l1 by simp
      show ?thesis
        using document_save_fst_same [OF assms(2), of _ g2 g1]
        by (cases r1)
          (simp_all add: NoteModel_save_as_docx_def fst_try_except Inr Some ph l2 l1 e)
    qed
  qed
qed

lemma write_text_fst_same:
  assumes "same_libraries L2 L1" and "io_error L2 p = io_error L1 p"
  shows "fst (write_text L2 p s fs2) = fst (write_text L1 p s fs1)"
  using assms by (simp add: write_text_def Let_def same_libraries_def split: option.splits)

lemma app_save_fst_same:
  assumes "same_libraries L2 L1" and "io_error L2 p = io_error L1 p"
  shows "fst (NoteApp_save_to_file L2 c p fs2) = fst (NoteApp_save_to_file L1 c p fs1)"
  using app_docx_fst_same [OF assms, of c fs2 fs1] write_text_fst_same [OF assms, of c fs2 fs1]
  by (simp add: NoteApp_save_to_file_def)

lemma model_save_fst_same:
  assumes "same_libraries L2 L1" and "io_error L2 p = io_error L1 p"
  shows "fst (NoteModel_save_to_file L2 c p fs2) = fst (NoteModel_save_to_file L1 c p fs1)"
proof (cases "endswith p (lit ''.docx'')")
  case True
  then show ?thesis
    using model_docx_fst_same [OF assms, of c fs2 fs1]
    by (simp add: model_save_to_file_docx fst_case_result)
next
  case False
  then show ?thesis
    using write_text_fst_same [OF assms, of c fs2 fs1]
    by (simp add: model_save_to_file_text fst_case_result)
qed

text \<open>What a successful export leaves at its destination does not depend on the files before.\<close>

lemma app_docx_saved:
  assumes "same_libraries L2 L1"
    and "NoteApp_save_as_docx L2 c p fs2 = (Inr u2, fs2')"
    and "NoteApp_save_as_docx L1 c p fs1 = (Inr u1, fs1')"
  shows "map_of fs2' p = map_of fs1' p"
proof -
  obtain soup b where pb: "parse_html L1 c = Inr soup" "body soup = Some b"
    using app_docx_success_parse [OF assms(3)] by blast
  have pb2: "parse_html L2 c = Inr soup"
    using pb(1) assms(1) by (simp add: same_libraries_def)
  have n: "map (node_items L2) (descendants b) = map (node_items L1) (descendants b)"
    using node_items_same [OF assms(1)] by simp
  have "map_of fs1' p = Some (Docx (concat (map (node_items L1) (descendants b))))"
    using app_docx_success [OF assms(3) pb] by (auto simp: update_conv')
  moreover have "map_of fs2' p = Some (Docx (concat (map (node_items L2) (descendants b))))"
    using app_docx_success [OF assms(2) pb2 pb(2)] by (auto simp: update_conv')
  ultimately show ?thesis using n by simp
qed

lemma write_text_saved:
  assumes "same_libraries L2 L1"
    and "write_text L2 p s fs2 = (Inr u2, fs2')" and "write_text L1 p s fs1 = (Inr u1, fs1')"
  shows "map_of fs2' p = map_of fs1' p"
  using assms
  by (auto simp: write_text_def Let_def update_conv' same_libraries_def split: option.splits)

lemma app_save_saved:
  assumes "same_libraries L2 L1"
    and "NoteApp_save_to_file L2 c p fs2 = (Inr u2, fs2')"
    and "NoteApp_save_to_file L1 c p fs1 = (Inr u1, fs1')"
  shows "map_of fs2' p = map_of fs1' p"
proof (cases "endswith p (lit ''.docx'')")
  case True
  then show ?thesis
    using assms(2) assms(3) app_docx_saved [OF assms(1), of c p fs2 u2 fs2' fs1 u1 fs1']
    by (simp add: NoteApp_save_to_file_def)
next
  case False
  then show ?thesis
    using assms(2) assms(3) write_text_saved [OF assms(1), of p c fs2 u2 fs2' fs1 u1 fs1']
    by (simp add: NoteApp_save_to_file_def)
qed

section \<open>The concrete environment evaluated\<close>

lemma split_on_first:
  "sep \<notin> set pre \<Longrightarrow> split_on sep (pre @ sep # rest) = pre # split_on sep rest"
  by (induction pre) auto

lemma lit_data_prefix: "lit ''data:image/png;base64,'' = lit ''data:image/png;base64'' @ [44]"
  by (simp add: lit_def)

lemma data_prefix_no_comma: "44 \<notin> set (lit ''data:image/png;base64'')"
  by (simp add: lit_def)

lemma split_data_uri:
  "split_on 44 (lit ''data:image/png;base64,'' @ payload) =
     lit ''data:image/png;base64'' # split_on 44 payload"
  using split_on_first [OF data_prefix_no_comma, of payload] by (simp add: lit_data_prefix)

lemma after_first_comma_data_uri:
  "after_first_comma (lit ''data:image/png;base64,'' @ payload) = Inr payload"
proof -
  have "dropWhile (\<lambda>c. c \<noteq> 44) (lit ''data:image/png;base64'' @ 44 # payload) = 44 # payload"
    using data_prefix_no_comma by (auto simp: dropWhile_append3)
  then show ?thesis by (simp add: after_first_comma_def lit_data_prefix)
qed

lemma demo_descendants: "descendants demo_body =
   [demo_p, NavigableString (lit ''Hi''), demo_img, Tag (lit ''b'') [] [NavigableString (lit ''!'')],
    NavigableString (lit ''!''), Tag (lit ''div'') [] [NavigableString (lit ''x'')], NavigableString (lit ''x'')]"
  by (simp add: demo_body_def demo_p_def demo_img_def)

lemma demo_body_found: "body demo_soup = Some demo_body"
  by (simp add: body_def demo_soup_def demo_body_def lit_def)

lemma demo_p_descendants:
  "descendants demo_p =
     [NavigableString (lit ''Hi''), demo_img, Tag (lit ''b'') [] [NavigableString (lit ''!'')],
      NavigableString (lit ''!'')]"
  by (simp add: demo_p_def demo_img_def)

lemma demo_payload_no_comma: "44 \<notin> set demo_png_b64"
  by (simp add: demo_png_b64_def lit_def)

lemma demo_split: "split_on 44 demo_src = [lit ''data:image/png;base64'', demo_png_b64]"
  by (simp add: demo_src_def split_data_uri split_no_sep [OF demo_payload_no_comma])

lemma demo_decode: "demo_b64decode demo_png_b64 = Inr demo_png"
  by (simp add: demo_b64decode_def demo_png_b64_def demo_png_def lit_def b64_index_def)

lemma demo_png_signature: "take 8 demo_png = png_signature"
  by (simp add: demo_png_def png_signature_def)

lemma demo_img_src: "getitem demo_img (lit ''src'') = Inr demo_src"
  by (simp add: demo_img_def)

lemma demo_piece: "list_getitem (split_on 44 demo_src) 1 = Inr demo_png_b64"
  by (simp add: demo_split list_getitem_def)

lemma demo_lib_calls:
  "b64decode (demo_libs soup sep) demo_png_b64 = Inr demo_png"
  "image_open (demo_libs soup sep) demo_png = Inr demo_png"
  "png_save (demo_libs soup sep) demo_png = Inr demo_png"
  by (simp_all add: demo_libs_def demo_decode demo_image_open_def demo_png_signature
      demo_png_save_def)

lemma demo_png_of: "png_of (demo_libs s sep) demo_img = Inr demo_png"
  by (simp add: png_of_def demo_img_src demo_split list_getitem_def demo_lib_calls)

lemma demo_parse: "parse_html (demo_libs soup sep) c = Inr soup"
  by (simp add: demo_libs_def)

lemma demo_names:
  "name demo_p = Some (lit ''p'')" "name demo_img = Some (lit ''img'')"
  by (simp_all add: demo_p_def demo_img_def)

lemma demo_mktemp_empty: "mktemp (demo_libs soup sep) (lit ''.png'') [] = lit ''t.png''"
  by (simp add: demo_libs_def demo_mktemp_def lit_def)

lemma demo_io: "io_error (demo_libs soup sep) p = None"
  by (simp add: demo_libs_def)

lemma demo_linesep: "linesep (demo_libs soup sep) = sep"
  by (simp add: demo_libs_def)

lemma demo_paragraph_ok:
  "paragraph_error (demo_libs soup sep) (lit ''Hi!'') = None"
  "paragraph_error (demo_libs soup sep) (lit ''Hi'') = None"
  by (simp_all add: demo_libs_def demo_paragraph_error_def lit_def)

lemma demo_paragraph_refused:
  "paragraph_error (demo_libs soup sep) [97, 1, 98] =
     Some (Exn (lit ''ValueError'') (lit ''All strings must be XML compatible'') None)"
  by (simp add: demo_libs_def demo_paragraph_error_def)

lemma demo_visit_img:
  "NoteApp_visit (demo_libs soup sep) demo_img doc [] =
     (Inr (doc @ [Picture demo_png 3657600]), [(lit ''t.png'', Bytes demo_png)])"
proof -
  have "NoteApp_visit (demo_libs soup sep) demo_img doc [] =
          NoteApp_img_branch (demo_libs soup sep) demo_img doc []"
    using lit_img_neq_p by (simp add: NoteApp_visit_def demo_names)
  moreover have "fst (NoteApp_img_branch (demo_libs soup sep) demo_img doc []) =
      Inr (doc @ [Picture demo_png 3657600])"
    by (simp add: img_branch_fst demo_png_of Inches_def)
  moreover have "snd (NoteApp_img_branch (demo_libs soup sep) demo_img doc []) =
      [(lit ''t.png'', Bytes demo_png)]"
    by (simp add: img_branch_snd [OF demo_png_of] demo_mktemp_empty)
  ultimately show ?thesis by (simp add: prod_eq_iff)
qed

lemma demo_get_text: "get_text demo_p = lit ''Hi!''"
  by (simp add: demo_p_def demo_img_def lit_def)

lemma demo_loop:
  "NoteApp_loop (demo_libs soup sep) (descendants demo_body) [] [] =
     (Inr [Paragraph (lit ''Hi!''), Picture demo_png 3657600], [(lit ''t.png'', Bytes demo_png)])"
proof -
  have o: "\<And>n as cs d f. n \<noteq> lit ''p'' \<Longrightarrow> n \<noteq> lit ''img'' \<Longrightarrow>
      NoteApp_visit (demo_libs soup sep) (Tag n as cs) d f = (Inr d, f)"
    by (simp add: visit_other)
  have s: "\<And>t d f. NoteApp_visit (demo_libs soup sep) (NavigableString t) d f = (Inr d, f)"
    by (simp add: visit_other)
  have n: "lit ''b'' \<noteq> lit ''p''" "lit ''b'' \<noteq> lit ''img''"
          "lit ''div'' \<noteq> lit ''p''" "lit ''div'' \<noteq> lit ''img''"
    by (simp_all add: lit_def)
  have p: "\<And>d f. NoteApp_visit (demo_libs soup sep) demo_p d f =
             (Inr (d @ [Paragraph (lit ''Hi!'')]), f)"
    using visit_p [OF demo_names(1), of "demo_libs soup sep"]
    by (simp add: demo_get_text demo_paragraph_ok)
  show ?thesis
    by (simp add: demo_descendants p demo_visit_img o s n)
qed

lemma demo_export:
  "NoteApp_save_as_docx (demo_libs demo_soup sep) c (lit ''n.docx'') [] = (Inr (), demo_fs)"
proof -
  have "lit ''t.png'' \<noteq> lit ''n.docx''" by (simp add: lit_def)
  then show ?thesis
    by (simp add: NoteApp_save_as_docx_def demo_parse demo_body_found demo_loop
        document_save_def demo_io demo_fs_def)
qed

lemma demo_endswith_docx: "endswith (lit ''n.docx'') (lit ''.docx'')"
  by (simp add: endswith_def lit_def)

lemma demo_plain_body: "body demo_plain_soup = None"
  by (simp add: body_def demo_plain_soup_def)

lemma demo_bad_body_found: "body demo_bad_soup = Some demo_bad_body"
  by (simp add: body_def demo_bad_soup_def demo_bad_body_def lit_def)

lemma demo_bad_descendants:
  "descendants demo_bad_body =
     [Tag (lit ''p'') [] [NavigableString (lit ''Hi'')], NavigableString (lit ''Hi''), demo_bad_img]"
proof -
  have "descendants demo_bad_img = []" by (simp add: demo_bad_img_def)
  then show ?thesis by (simp add: demo_bad_body_def)
qed

lemma demo_bad_img_facts:
  "name demo_bad_img = Some (lit ''img'')"
  "getitem demo_bad_img (lit ''src'') = Inr (lit ''photo.png'')"
  "44 \<notin> set (lit ''photo.png'')"
  by (simp_all add: demo_bad_img_def lit_def)

lemma demo_bad_export:
  "NoteApp_save_as_docx (demo_libs demo_bad_soup sep) c p [] = (Inl IndexError, [])"
proof -
  have i: "NoteApp_visit (demo_libs demo_bad_soup sep) demo_bad_img doc [] = (Inl IndexError, [])"
    for doc
    using lit_img_neq_p
    by (simp add: NoteApp_visit_def NoteApp_img_branch_def demo_bad_img_facts split_no_sep
        list_getitem_def)
  have p: "NoteApp_visit (demo_libs demo_bad_soup sep)
             (Tag (lit ''p'') [] [NavigableString (lit ''Hi'')]) d f =
           (Inr (d @ [Paragraph (lit ''Hi'')]), f)" for d f
    by (simp add: NoteApp_visit_def add_paragraph_def demo_paragraph_ok)
  have "NoteApp_loop (demo_libs demo_bad_soup sep) (descendants demo_bad_body) [] [] =
          (Inl IndexError, [])"
    by (simp add: demo_bad_descendants p visit_other i)
  then show ?thesis
    by (rule app_docx_loop_failure [OF demo_parse demo_bad_body_found])
qed

lemma demo_not_docx: "\<not> endswith (lit ''n.html'') (lit ''.docx'')"
  by (simp add: endswith_def lit_def)

lemma demo_utf8: "utf8_encode [97, 10, 98] = Some [97, 10, 98]"
  by (simp add: utf8_char_def)

lemma demo_utf8_crlf: "utf8_encode [97, 13, 10, 98] = Some [97, 13, 10, 98]"
  by (simp add: utf8_char_def)

lemma demo_translate_crlf: "translate_newlines [13, 10] [97, 10, 98] = [97, 13, 10, 98]"
  by (simp add: translate_newlines_def)

lemma demo_mktemp_bound:
  "n \<in> set names \<Longrightarrow> length n \<le> foldr (\<lambda>n m. max (length n) m) names 0"
  by (induction names) auto

lemma demo_mktemp_fresh: "mktemp (demo_libs soup sep) suffix names \<notin> set names"
proof
  assume "mktemp (demo_libs soup sep) suffix names \<in> set names"
  then have "length (demo_mktemp suffix names) \<le> foldr (\<lambda>n m. max (length n) m) names 0"
    using demo_mktemp_bound [of "demo_mktemp suffix names" names] by (simp add: demo_libs_def)
  then show False by (simp add: demo_mktemp_def)
qed

lemma demo_app_save_docx:
  "NoteApp_save_to_file (demo_libs demo_soup sep) c (lit ''n.docx'') [] = (Inr (), demo_fs)"
  by (simp add: NoteApp_save_to_file_def demo_endswith_docx demo_export)

lemma demo_model_save_docx:
  "NoteModel_save_to_file (demo_libs demo_soup sep) c (lit ''n.docx'') [] = (Inr True, demo_fs)"
proof -
  have "NoteModel_save_as_docx (demo_libs demo_soup sep) c (lit ''n.docx'') [] =
      (Inr (), demo_fs)"
    using demo_export by (rule model_docx_of_app_success)
  then show ?thesis by (simp add: model_save_to_file_docx demo_endswith_docx)
qed

lemma demo_write:
  "write_text (demo_libs soup [10]) p [97, 10, 98] fs =
     (Inr (), AList.update p (Bytes [97, 10, 98]) fs)"
  by (rule write_text_success)
     (simp_all add: demo_io demo_linesep translate_newlines_id demo_utf8 del: utf8_encode.simps)

lemma demo_save_html:
  "NoteApp_save_to_file (demo_libs soup [10]) [97, 10, 98] (lit ''n.html'') fs =
     (Inr (), AList.update (lit ''n.html'') (Bytes [97, 10, 98]) fs)"
  "NoteModel_save_to_file (demo_libs soup [10]) [97, 10, 98] (lit ''n.html'') fs =
     (Inr True, AList.update (lit ''n.html'') (Bytes [97, 10, 98]) fs)"
  by (simp_all add: app_save_to_file_text model_save_to_file_text demo_not_docx demo_write)

lemma demo_paths_differ: "lit ''n.docx'' \<noteq> lit ''n.html''"
  by (simp add: lit_def)

lemma demo_ctrl_facts:
  "body demo_ctrl_soup = Some demo_ctrl_body"
  "descendants demo_ctrl_body = [demo_ctrl_p, NavigableString [97, 1, 98]]"
  "name demo_ctrl_p = Some (lit ''p'')"
  "get_text demo_ctrl_p = [97, 1, 98]"
  by (simp_all add: body_def demo_ctrl_soup_def demo_ctrl_body_def demo_ctrl_p_def lit_def)

lemma demo_ctrl_visit:
  "NoteApp_visit (demo_libs soup sep) demo_ctrl_p d f =
     (Inl (Exn (lit ''ValueError'') (lit ''All strings must be XML compatible'') None), f)"
  by (rule visit_p_refused [OF demo_ctrl_facts(3)])
     (simp only: demo_ctrl_facts(4) demo_paragraph_refused)

lemma demo_ctrl_export:
  "NoteApp_save_as_docx (demo_libs demo_ctrl_soup sep) c p [] =
     (Inl (Exn (lit ''ValueError'') (lit ''All strings must be XML compatible'') None), [])"
proof -
  have "NoteApp_loop (demo_libs demo_ctrl_soup sep) (descendants demo_ctrl_body) [] [] =
          (Inl (Exn (lit ''ValueError'') (lit ''All strings must be XML compatible'') None), [])"
    by (simp add: demo_ctrl_facts demo_ctrl_visit)
  then show ?thesis
    by (rule app_docx_loop_failure [OF demo_parse demo_ctrl_facts(1)])
qed

lemma demo_cut_split:
  "split_on 44 demo_cut_src =
     [lit ''data:image/png;base64'', lit ''iVBOR'',
      lit ''w0KGgoAAAANSUhEUgAAAAEAAAABCAYAAAAfFcSJAAAA'' @
      lit ''DUlEQVR42mNkYPhfDwAChwGA60e6kgAAAABJRU5ErkJggg=='']"
  by (simp add: demo_cut_src_def split_data_uri demo_cut_payload_def lit_def)

lemma demo_cut_facts:
  "name demo_cut_img = Some (lit ''img'')"
  "getitem demo_cut_img (lit ''src'') = Inr demo_cut_src"
  by (simp_all add: demo_cut_img_def)

lemma demo_cut_piece: "list_getitem (split_on 44 demo_cut_src) 1 = Inr (lit ''iVBOR'')"
  by (simp add: demo_cut_split list_getitem_def)

lemma demo_cut_rest: "after_first_comma demo_cut_src = Inr demo_cut_payload"
  by (simp add: demo_cut_src_def after_first_comma_data_uri)

lemma demo_cut_decode:
  "demo_b64decode demo_cut_payload = Inr demo_png"
  "isl (demo_b64decode (lit ''iVBOR''))"
  by (simp_all add: demo_b64decode_def demo_cut_payload_def demo_png_def lit_def b64_index_def)

lemma demo_cut_spec: "spec_png_of (demo_libs soup sep) demo_cut_img = Inr demo_png"
  by (simp add: spec_png_of_def demo_cut_facts demo_cut_rest demo_libs_def demo_cut_decode
      demo_image_open_def demo_png_signature demo_png_save_def)

lemma demo_cut_visit:
  "isl (fst (NoteApp_visit (demo_libs soup sep) demo_cut_img [] []))"
  "isl (fst (NoteModel_visit (demo_libs soup sep) demo_cut_img [] []))"
  "snd (NoteApp_visit (demo_libs soup sep) demo_cut_img [] []) = []"
  "snd (NoteModel_visit (demo_libs soup sep) demo_cut_img [] []) = []"
proof -
  obtain e where d: "b64decode (demo_libs soup sep) (lit ''iVBOR'') = Inl e"
    using demo_cut_decode(2)
    by (cases "demo_b64decode (lit ''iVBOR'')") (simp_all add: demo_libs_def)
  have v: "NoteApp_visit (demo_libs soup sep) demo_cut_img [] [] = (Inl e, [])"
    using lit_img_neq_p
    by (simp add: NoteApp_visit_def demo_cut_facts NoteApp_img_branch_def demo_cut_split
        list_getitem_def d)
  show "isl (fst (NoteApp_visit (demo_libs soup sep) demo_cut_img [] []))"
    "snd (NoteApp_visit (demo_libs soup sep) demo_cut_img [] []) = []"
    by (simp_all add: v)
  show "isl (fst (NoteModel_visit (demo_libs soup sep) demo_cut_img [] []))"
    "snd (NoteModel_visit (demo_libs soup sep) demo_cut_img [] []) = []"
    using lit_img_neq_p
    by (simp_all add: model_visit_rel demo_cut_facts v try_except_def)
qed

lemma demo_junk_payload_no_comma: "44 \<notin> set demo_junk_payload"
  by (simp add: demo_junk_payload_def lit_def)

lemma demo_junk_split:
  "split_on 44 demo_junk_src = [lit ''data:image/png;base64'', demo_junk_payload]"
  by (simp add: demo_junk_src_def split_data_uri split_no_sep [OF demo_junk_payload_no_comma])

lemma demo_junk_facts:
  "body demo_junk_soup = Some demo_junk_body"
  "descendants demo_junk_body = [demo_junk_img]"
  "name demo_junk_img = Some (lit ''img'')"
  "getitem demo_junk_img (lit ''src'') = Inr demo_junk_src"
  by (simp_all add: body_def demo_junk_soup_def demo_junk_body_def demo_junk_img_def lit_def)

lemma demo_junk_piece: "list_getitem (split_on 44 demo_junk_src) 1 = Inr demo_junk_payload"
  by (simp add: demo_junk_split list_getitem_def)

lemma demo_junk_not_base64: "33 \<in> set demo_junk_payload" "b64_index 33 = None"
  by (simp_all add: demo_junk_payload_def lit_def b64_index_def)

lemma demo_junk_decode: "demo_b64decode demo_junk_payload = Inr demo_png"
  by (simp add: demo_b64decode_def demo_junk_payload_def demo_png_def lit_def b64_index_def)

lemma demo_junk_png_of: "png_of (demo_libs soup sep) demo_junk_img = Inr demo_png"
  by (simp add: png_of_def demo_junk_facts demo_junk_split list_getitem_def demo_libs_def
      demo_junk_decode demo_image_open_def demo_png_signature demo_png_save_def)

lemma demo_junk_visit:
  "NoteApp_visit (demo_libs soup sep) demo_junk_img doc [] =
     (Inr (doc @ [Picture demo_png 3657600]), [(lit ''t.png'', Bytes demo_png)])"
proof -
  have "NoteApp_visit (demo_libs soup sep) demo_junk_img doc [] =
          NoteApp_img_branch (demo_libs soup sep) demo_junk_img doc []"
    using lit_img_neq_p by (simp add: NoteApp_visit_def demo_junk_facts)
  moreover have "fst (NoteApp_img_branch (demo_libs soup sep) demo_junk_img doc []) =
      Inr (doc @ [Picture demo_png 3657600])"
    by (simp add: img_branch_fst demo_junk_png_of Inches_def)
  moreover have "snd (NoteApp_img_branch (demo_libs soup sep) demo_junk_img doc []) =
      [(lit ''t.png'', Bytes demo_png)]"
    by (simp add: img_branch_snd [OF demo_junk_png_of] demo_mktemp_empty)
  ultimately show ?thesis by (simp add: prod_eq_iff)
qed

lemma demo_junk_export:
  "NoteApp_save_as_docx (demo_libs demo_junk_soup sep) c (lit ''n.docx'') [] =
     (Inr (), [(lit ''t.png'', Bytes demo_png), (lit ''n.docx'', Docx [Picture demo_png 3657600])])"
  by (simp add: NoteApp_save_as_docx_def demo_parse demo_junk_facts demo_junk_visit
      document_save_def demo_io lit_def)

lemma demo_junk_save:
  "NoteApp_save_to_file (demo_libs demo_junk_soup sep) c (lit ''n.docx'') [] =
     (Inr (), [(lit ''t.png'', Bytes demo_png), (lit ''n.docx'', Docx [Picture demo_png 3657600])])"
  "NoteModel_save_to_file (demo_libs demo_junk_soup sep) c (lit ''n.docx'') [] =
     (Inr True, [(lit ''t.png'', Bytes demo_png), (lit ''n.docx'', Docx [Picture demo_png 3657600])])"
proof -
  show "NoteApp_save_to_file (demo_libs demo_junk_soup sep) c (lit ''n.docx'') [] =
     (Inr (), [(lit ''t.png'', Bytes demo_png), (lit ''n.docx'', Docx [Picture demo_png 3657600])])"
    by (simp add: NoteApp_save_to_file_def demo_endswith_docx demo_junk_export)
  have "NoteModel_save_as_docx (demo_libs demo_junk_soup sep) c (lit ''n.docx'') [] =
     (Inr (), [(lit ''t.png'', Bytes demo_png), (lit ''n.docx'', Docx [Picture demo_png 3657600])])"
    using demo_junk_export by (rule model_docx_of_app_success)
  then show "NoteModel_save_to_file (demo_libs demo_junk_soup sep) c (lit ''n.docx'') [] =
     (Inr True, [(lit ''t.png'', Bytes demo_png), (lit ''n.docx'', Docx [Picture demo_png 3657600])])"
    by (simp add: model_save_to_file_docx demo_endswith_docx)
qed

lemma demo_junk_saved:
  "saved_document
     [(lit ''t.png'', Bytes demo_png), (lit ''n.docx'', Docx [Picture demo_png 3657600])]
     (lit ''n.docx'') = [Picture demo_png 3657600]"
  by (simp add: saved_document_def lit_def)

lemma demo_note_txt:
  "\<not> endswith (lit ''note.txt'') (lit ''.docx'')"
  "utf8_encode [60, 112, 62, 10] = Some [60, 112, 62, 10]"
  "utf8_encode [60, 112, 62, 13, 10] = Some [60, 112, 62, 13, 10]"
  "translate_newlines [13, 10] [60, 112, 62, 10] = [60, 112, 62, 13, 10]"
  by (simp_all add: endswith_def lit_def utf8_char_def translate_newlines_def)

lemma demo_note_txt_write:
  "write_text (demo_libs soup [13, 10]) (lit ''note.txt'') [60, 112, 62, 10] [] =
     (Inr (), [(lit ''note.txt'', Bytes [60, 112, 62, 13, 10])])"
  using write_text_success [of "demo_libs soup [13, 10]" "lit ''note.txt''" "[60, 112, 62, 10]"
      "[60, 112, 62, 13, 10]" "[]"]
  by (simp add: demo_io demo_linesep demo_note_txt del: utf8_encode.simps)

lemma demo_posix_same:
  "same_libraries (demo_posix_libs soup sep fs2) (demo_posix_libs soup sep fs1)"
  by (simp add: same_libraries_def demo_posix_libs_def)

lemma demo_posix_io:
  "io_error (demo_posix_libs soup sep fs) p = demo_posix_io_error (map fst fs) p"
  by (simp add: demo_posix_libs_def)

lemma demo_posix_linesep: "linesep (demo_posix_libs soup sep fs) = sep"
  by (simp add: demo_posix_libs_def demo_libs_def)

lemma demo_posix_paths:
  "parent_paths (lit ''n'') = []"
  "parent_paths (lit ''m.html'') = []"
  "parent_paths (lit ''n/x.html'') = [lit ''n'']"
  "47 \<notin> set (lit ''n'')"
  "47 \<notin> set (lit ''m.html'')"
  "47 \<in> set (lit ''n/x.html'')"
  "\<not> endswith (lit ''n'') (lit ''.docx'')"
  "\<not> endswith (lit ''m.html'') (lit ''.docx'')"
  "\<not> endswith (lit ''n/x.html'') (lit ''.docx'')"
  "lit ''n'' \<noteq> lit ''n/x.html''"
  "lit ''n'' \<noteq> lit ''m.html''"
  by (simp_all add: lit_def endswith_def)

lemma demo_posix_open:
  "demo_posix_io_error [] (lit ''n'') = None"
  "demo_posix_io_error [] (lit ''m.html'') = None"
  "demo_posix_io_error [lit ''n''] (lit ''m.html'') = None"
  "demo_posix_io_error [] (lit ''n/x.html'') = Some (NoSuchFileError (lit ''n/x.html''))"
  "demo_posix_io_error [lit ''n''] (lit ''n/x.html'') =
     Some (NotADirectoryError (lit ''n/x.html''))"
  by (simp_all add: demo_posix_io_error_def demo_posix_paths)

lemma demo_posix_write:
  "write_text (demo_posix_libs soup [10] []) (lit ''n'') [97] [] =
     (Inr (), [(lit ''n'', Bytes [97])])"
  "write_text (demo_posix_libs soup [10] []) (lit ''m.html'') [97] [] =
     (Inr (), [(lit ''m.html'', Bytes [97])])"
  "write_text (demo_posix_libs soup [10] [(lit ''n'', Bytes [97])]) (lit ''m.html'') [97]
       [(lit ''n'', Bytes [97])] =
     (Inr (), [(lit ''n'', Bytes [97]), (lit ''m.html'', Bytes [97])])"
  "write_text (demo_posix_libs soup [10] []) (lit ''n/x.html'') [97] [] =
     (Inl (NoSuchFileError (lit ''n/x.html'')), [])"
  "write_text (demo_posix_libs soup [10] [(lit ''n'', Bytes [97])]) (lit ''n/x.html'') [97]
       [(lit ''n'', Bytes [97])] =
     (Inl (NotADirectoryError (lit ''n/x.html'')), [(lit ''n'', Bytes [97])])"
  using demo_posix_paths(11)
  by (simp_all add: write_text_def demo_posix_io demo_posix_open demo_posix_linesep
      translate_newlines_def utf8_char_def)

lemma demo_posix_errors:
  "NotADirectoryError (lit ''n/x.html'') \<noteq> NoSuchFileError (lit ''n/x.html'')"
  "str (reraise ''Save failed: '' (NotADirectoryError (lit ''n/x.html''))) =
     lit ''Save failed: [Errno 20] Not a directory: '' @ [39] @ lit ''n/x.html'' @ [39]"
  "str (reraise ''Save failed: '' (NoSuchFileError (lit ''n/x.html''))) =
     lit ''Save failed: [Errno 2] No such file or directory: '' @ [39] @ lit ''n/x.html'' @ [39]"
  by (simp_all add: NotADirectoryError_def NoSuchFileError_def str_reraise lit_def)

section \<open>The claims\<close>

subsection \<open>C1: paragraphs, in document order\<close>

text \<open>
  C1, as stated, fails where it says that every \<open>p\<close> node gets a paragraph: the document
  library refuses a text that XML cannot carry. For the note
  \<open><body><p>a\<dots>b</p></body>\<close>, whose paragraph holds the letter a, the control character
  U+0001 and the letter b, \<open>add_paragraph\<close> raises \<open>ValueError\<close>: the visit of the \<open>p\<close> node
  appends nothing, and the export fails in both implementations and saves no document.
\<close>

theorem C1_control_character_counterexample:
  "parse_html (demo_libs demo_ctrl_soup [10]) demo_ctrl_html = Inr demo_ctrl_soup \<and>
   body demo_ctrl_soup = Some demo_ctrl_body \<and>
   descendants demo_ctrl_body = [demo_ctrl_p, NavigableString [97, 1, 98]] \<and>
   name demo_ctrl_p = Some (lit ''p'') \<and>
   get_text demo_ctrl_p = [97, 1, 98] \<and>
   isl (fst (NoteApp_visit (demo_libs demo_ctrl_soup [10]) demo_ctrl_p [] [])) \<and>
   isl (fst (NoteModel_visit (demo_libs demo_ctrl_soup [10]) demo_ctrl_p [] [])) \<and>
   NoteApp_visit (demo_libs demo_ctrl_soup [10]) demo_ctrl_p [] [] \<noteq>
     (Inr [Paragraph [97, 1, 98]], []) \<and>
   NoteModel_visit (demo_libs demo_ctrl_soup [10]) demo_ctrl_p [] [] \<noteq>
     (Inr [Paragraph [97, 1, 98]], []) \<and>
   isl (fst (NoteApp_save_to_file (demo_libs demo_ctrl_soup [10]) demo_ctrl_html
              (lit ''n.docx'') [])) \<and>
   isl (fst (NoteModel_save_to_file (demo_libs demo_ctrl_soup [10]) demo_ctrl_html
              (lit ''n.docx'') [])) \<and>
   snd (NoteApp_save_to_file (demo_libs demo_ctrl_soup [10]) demo_ctrl_html (lit ''n.docx'') []) =
     [] \<and>
   snd (NoteModel_save_to_file (demo_libs demo_ctrl_soup [10]) demo_ctrl_html (lit ''n.docx'') []) =
     []"
proof -
  let ?L = "demo_libs demo_ctrl_soup [10]"
  let ?e = "Exn (lit ''ValueError'') (lit ''All strings must be XML compatible'') None"
  have v: "NoteApp_visit ?L demo_ctrl_p [] [] = (Inl ?e, [])"
    by (rule demo_ctrl_visit)
  have m: "NoteModel_visit ?L demo_ctrl_p [] [] = (Inl ?e, [])"
    by (simp add: model_visit_rel demo_ctrl_facts(3) v)
  have a: "NoteApp_save_as_docx ?L demo_ctrl_html (lit ''n.docx'') [] = (Inl ?e, [])"
    by (rule demo_ctrl_export)
  have s: "NoteApp_save_to_file ?L demo_ctrl_html (lit ''n.docx'') [] = (Inl ?e, [])"
    by (simp add: NoteApp_save_to_file_def demo_endswith_docx a)
  have "isl (fst (NoteModel_save_as_docx ?L demo_ctrl_html (lit ''n.docx'') [])) \<and>
        snd (NoteModel_save_as_docx ?L demo_ctrl_html (lit ''n.docx'') []) = []"
    using model_docx_of_app_failure [OF a] by auto
  then have t: "isl (fst (NoteModel_save_to_file ?L demo_ctrl_html (lit ''n.docx'') [])) \<and>
        snd (NoteModel_save_to_file ?L demo_ctrl_html (lit ''n.docx'') []) = []"
    by (cases "NoteModel_save_as_docx ?L demo_ctrl_html (lit ''n.docx'') []")
       (auto simp: model_save_to_file_docx demo_endswith_docx split: sum.splits)
  show ?thesis
    using demo_parse [of demo_ctrl_soup "[10]" demo_ctrl_html] demo_ctrl_facts v m s t by simp
qed

text \<open>
  C1, amended. The loop runs over every descendant of the body, depth first in document
  order. For a node named \<open>p\<close> the exporter hands the node's flattened text to the document
  library, which appends exactly one paragraph holding that text, or raises when it refuses
  the text; the exception ends the export. A node named neither \<open>p\<close> nor \<open>img\<close> adds nothing
  and leaves the document and the file system as they are. When the export succeeds, no
  text of a \<open>p\<close> node was refused, and the saved document is the concatenation, node by node
  in document order, of what each node adds, so that its paragraphs are the flattened texts
  of the \<open>p\<close> nodes in that order. Both implementations behave so.
\<close>

theorem C1_paragraphs_in_document_order:
  assumes "parse_html L content = Inr soup" and "body soup = Some b"
    and "NoteApp_save_as_docx L content file_name fs = (Inr (), fs')"
  shows "NoteModel_save_as_docx L content file_name fs = (Inr (), fs') \<and>
         (\<exists>items. map_of fs' file_name = Some (Docx items) \<and>
            items = concat (map (node_items L) (descendants b)) \<and>
            paragraph_texts items =
              map get_text (filter (\<lambda>e. name e = Some (lit ''p'')) (descendants b))) \<and>
         (\<forall>e \<in> set (descendants b). name e = Some (lit ''p'') \<longrightarrow>
            paragraph_error L (get_text e) = None) \<and>
         (\<forall>e d f. name e = Some (lit ''p'') \<longrightarrow>
            node_items L e = [Paragraph (get_text e)] \<and>
            (paragraph_error L (get_text e) = None \<longrightarrow>
               NoteApp_visit L e d f = (Inr (d @ [Paragraph (get_text e)]), f) \<and>
               NoteModel_visit L e d f = (Inr (d @ [Paragraph (get_text e)]), f)) \<and>
            (\<forall>x. paragraph_error L (get_text e) = Some x \<longrightarrow>
               NoteApp_visit L e d f = (Inl x, f) \<and> NoteModel_visit L e d f = (Inl x, f))) \<and>
         (\<forall>e d f. name e \<noteq> Some (lit ''p'') \<and> name e \<noteq> Some (lit ''img'') \<longrightarrow>
            node_items L e = [] \<and>
            NoteApp_visit L e d f = (Inr d, f) \<and> NoteModel_visit L e d f = (Inr d, f))"
proof -
  have m: "NoteModel_save_as_docx L content file_name fs = (Inr (), fs')"
    using assms(3) by (rule model_docx_of_app_success)
  obtain fs1 where
    c: "contributions L (descendants b) = Inr (concat (map (node_items L) (descendants b)))"
    and u: "fs' = AList.update file_name (Docx (concat (map (node_items L) (descendants b)))) fs1"
    using app_docx_success [OF assms(3) assms(1) assms(2)] by blast
  have f: "map_of fs' file_name = Some (Docx (concat (map (node_items L) (descendants b))))"
    using u by (simp add: update_conv')
  have i: "\<exists>items. map_of fs' file_name = Some (Docx items) \<and>
            items = concat (map (node_items L) (descendants b)) \<and>
            paragraph_texts items =
              map get_text (filter (\<lambda>e. name e = Some (lit ''p'')) (descendants b))"
    using f paragraph_texts_concat [of L "descendants b"] by simp
  have n: "\<forall>e \<in> set (descendants b). name e = Some (lit ''p'') \<longrightarrow>
            paragraph_error L (get_text e) = None"
  proof (intro ballI impI)
    fix e
    assume e: "e \<in> set (descendants b)" and p: "name e = Some (lit ''p'')"
    show "paragraph_error L (get_text e) = None"
    proof (cases "paragraph_error L (get_text e)")
      case None
      then show ?thesis .
    next
      case (Some x)
      then have "contribution L e = Inl x"
        using p by (simp add: contribution_def add_paragraph_def)
      then have "\<exists>x. contributions L (descendants b) = Inl x"
        using e contributions_Inl_iff [of L "descendants b"] by blast
      then show ?thesis using c by simp
    qed
  qed
  have v1: "\<forall>e d f. name e = Some (lit ''p'') \<longrightarrow>
            node_items L e = [Paragraph (get_text e)] \<and>
            (paragraph_error L (get_text e) = None \<longrightarrow>
               NoteApp_visit L e d f = (Inr (d @ [Paragraph (get_text e)]), f) \<and>
               NoteModel_visit L e d f = (Inr (d @ [Paragraph (get_text e)]), f)) \<and>
            (\<forall>x. paragraph_error L (get_text e) = Some x \<longrightarrow>
               NoteApp_visit L e d f = (Inl x, f) \<and> NoteModel_visit L e d f = (Inl x, f))"
    by (simp add: node_items_def model_visit_rel visit_p visit_p_refused)
  have v2: "\<forall>e d f. name e \<noteq> Some (lit ''p'') \<and> name e \<noteq> Some (lit ''img'') \<longrightarrow>
            node_items L e = [] \<and>
            NoteApp_visit L e d f = (Inr d, f) \<and> NoteModel_visit L e d f = (Inr d, f)"
    by (simp add: node_items_def model_visit_rel visit_other try_except_def)
  show ?thesis by (rule conjI [OF m conjI [OF i conjI [OF n conjI [OF v1 v2]]]])
qed

theorem C1_paragraphs_in_document_order_witness:
  "parse_html (demo_libs demo_soup [10]) (lit ''<html>'') = Inr demo_soup \<and>
   body demo_soup = Some demo_body \<and>
   NoteApp_save_as_docx (demo_libs demo_soup [10]) (lit ''<html>'') (lit ''n.docx'') [] =
     (Inr (), demo_fs) \<and>
   NoteModel_save_as_docx (demo_libs demo_soup [10]) (lit ''<html>'') (lit ''n.docx'') [] =
     (Inr (), demo_fs) \<and>
   paragraph_texts (concat (map (node_items (demo_libs demo_soup [10])) (descendants demo_body))) =
     map get_text (filter (\<lambda>e. name e = Some (lit ''p'')) (descendants demo_body)) \<and>
   demo_p \<in> set (descendants demo_body) \<and>
   name demo_p = Some (lit ''p'') \<and>
   paragraph_error (demo_libs demo_soup [10]) (get_text demo_p) = None \<and>
   NoteModel_visit (demo_libs demo_soup [10]) demo_p [] [] = (Inr [Paragraph (lit ''Hi!'')], []) \<and>
   name demo_ctrl_p = Some (lit ''p'') \<and>
   paragraph_error (demo_libs demo_soup [10]) (get_text demo_ctrl_p) =
     Some (Exn (lit ''ValueError'') (lit ''All strings must be XML compatible'') None) \<and>
   NoteModel_visit (demo_libs demo_soup [10]) demo_ctrl_p [] [] =
     (Inl (Exn (lit ''ValueError'') (lit ''All strings must be XML compatible'') None), []) \<and>
   name (NavigableString (lit ''x'')) \<noteq> Some (lit ''p'') \<and>
   name (NavigableString (lit ''x'')) \<noteq> Some (lit ''img'') \<and>
   NoteModel_visit (demo_libs demo_soup [10]) (NavigableString (lit ''x'')) [] [] = (Inr [], [])"
proof -
  let ?L = "demo_libs demo_soup [10]"
  have h1: "parse_html ?L (lit ''<html>'') = Inr demo_soup"
    by (rule demo_parse)
  have h2: "body demo_soup = Some demo_body" by (rule demo_body_found)
  note h3 = demo_export [of "[10]" "lit ''<html>''"]
  have h4: "name (NavigableString (lit ''x'')) \<noteq> Some (lit ''p'') \<and>
            name (NavigableString (lit ''x'')) \<noteq> Some (lit ''img'')" by simp
  have h5: "demo_p \<in> set (descendants demo_body)" by (simp add: demo_descendants)
  have h6: "paragraph_error ?L (get_text demo_ctrl_p) =
     Some (Exn (lit ''ValueError'') (lit ''All strings must be XML compatible'') None)"
    by (simp only: demo_ctrl_facts(4) demo_paragraph_refused)
  note w = C1_paragraphs_in_document_order [OF h1 h2 h3]
  note w1 = w [THEN conjunct1]
  note w2 = w [THEN conjunct2, THEN conjunct1]
  note w3 = w [THEN conjunct2, THEN conjunct2, THEN conjunct1, rule_format, OF h5 demo_names(1)]
  note w4 = w [THEN conjunct2, THEN conjunct2, THEN conjunct2, THEN conjunct1, rule_format]
  note w5 = w [THEN conjunct2, THEN conjunct2, THEN conjunct2, THEN conjunct2, rule_format, OF h4]
  have p: "NoteModel_visit ?L demo_p [] [] = (Inr [Paragraph (lit ''Hi!'')], [])"
    using w4 [OF demo_names(1), THEN conjunct2, THEN conjunct1, THEN mp, OF w3, of "[]" "[]"]
    by (simp add: demo_get_text)
  have r: "NoteModel_visit ?L demo_ctrl_p [] [] =
     (Inl (Exn (lit ''ValueError'') (lit ''All strings must be XML compatible'') None), [])"
    using w4 [OF demo_ctrl_facts(3), THEN conjunct2, THEN conjunct2, rule_format, OF h6]
    by simp
  have t: "paragraph_texts (concat (map (node_items ?L) (descendants demo_body))) =
     map get_text (filter (\<lambda>e. name e = Some (lit ''p'')) (descendants demo_body))"
    using w2 by blast
  have o: "NoteModel_visit ?L (NavigableString (lit ''x'')) [] [] = (Inr [], [])"
    using w5 [of "[]" "[]"] by simp
  show ?thesis
    using h1 h2 h3 w1 t h5 demo_names(1) w3 p demo_ctrl_facts(3) h6 r h4 o by simp
qed

subsection \<open>C2: an image element becomes a picture\<close>

text \<open>
  C2, as stated, fails where it says that the source is split at its first comma and the
  remainder is decoded: \<open>split(",")[1]\<close> splits at every comma and takes the second piece.
  The source of \<open>demo_cut_img\<close> is \<open>data:image/png;base64,\<close> followed by the base64 text
  of a PNG file of one pixel, with a comma put after the fifth character of that text. The
  remainder after the first comma is the whole text with the comma in it; the decoder
  skips the comma and returns the PNG file, so the procedure of the claim inserts a
  picture. The code decodes the second piece, \<open>iVBOR\<close>, which the decoder rejects (five
  characters are not a whole number of bytes): the visit raises, no temporary file is
  written and no picture is inserted.
\<close>

theorem C2_second_piece_counterexample:
  "name demo_cut_img = Some (lit ''img'') \<and>
   getitem demo_cut_img (lit ''src'') = Inr demo_cut_src \<and>
   list_getitem (split_on 44 demo_cut_src) 1 = Inr (lit ''iVBOR'') \<and>
   after_first_comma demo_cut_src = Inr demo_cut_payload \<and>
   demo_cut_payload \<noteq> lit ''iVBOR'' \<and>
   b64decode (demo_libs demo_soup [10]) demo_cut_payload = Inr demo_png \<and>
   \<not> isl (image_open (demo_libs demo_soup [10]) demo_png) \<and>
   \<not> isl (spec_png_of (demo_libs demo_soup [10]) demo_cut_img) \<and>
   isl (b64decode (demo_libs demo_soup [10]) (lit ''iVBOR'')) \<and>
   isl (fst (NoteApp_visit (demo_libs demo_soup [10]) demo_cut_img [] [])) \<and>
   isl (fst (NoteModel_visit (demo_libs demo_soup [10]) demo_cut_img [] [])) \<and>
   snd (NoteApp_visit (demo_libs demo_soup [10]) demo_cut_img [] []) = [] \<and>
   snd (NoteModel_visit (demo_libs demo_soup [10]) demo_cut_img [] []) = []"
proof -
  have n: "demo_cut_payload \<noteq> lit ''iVBOR''"
    by (simp add: demo_cut_payload_def lit_def)
  have d: "b64decode (demo_libs demo_soup [10]) demo_cut_payload = Inr demo_png"
    "isl (b64decode (demo_libs demo_soup [10]) (lit ''iVBOR''))"
    by (simp_all add: demo_libs_def demo_cut_decode)
  have i: "\<not> isl (image_open (demo_libs demo_soup [10]) demo_png)"
    by (simp add: demo_lib_calls)
  have s: "\<not> isl (spec_png_of (demo_libs demo_soup [10]) demo_cut_img)"
    by (simp add: demo_cut_spec)
  show ?thesis
    using demo_cut_facts demo_cut_piece demo_cut_rest n d i s
      demo_cut_visit [of demo_soup "[10]"]
    by simp
qed

text \<open>
  C2, amended. For an \<open>img\<close> element the exporter takes the \<open>src\<close> attribute, splits it at
  every comma and decodes the second piece, which is the text after the first comma up to
  the next comma, if there is one. When the base64 decoder, the image decoder and the PNG
  encoder accept their inputs, the PNG bytes are written to a new temporary file and one
  picture holding them, of width 4 inches (3657600 EMU), is appended to the document. When
  the name of a temporary file is never one already in use, a run of the loop that
  succeeds leaves the old files as they were and adds one file per picture, in order, all
  under different names.
\<close>

theorem C2_image_becomes_picture:
  assumes "name el = Some (lit ''img'')"
    and "getitem el (lit ''src'') = Inr src"
    and "list_getitem (split_on 44 src) 1 = Inr img_data"
    and "b64decode L img_data = Inr image_bytes"
    and "image_open L image_bytes = Inr img"
    and "png_save L img = Inr png"
    and "\<forall>names. mktemp L (lit ''.png'') names \<notin> set names"
  shows "NoteApp_visit L el doc fs =
           (Inr (doc @ [Picture png (Inches 4)]),
            fs @ [(mktemp L (lit ''.png'') (map fst fs), Bytes png)]) \<and>
         NoteModel_visit L el doc fs =
           (Inr (doc @ [Picture png (Inches 4)]),
            fs @ [(mktemp L (lit ''.png'') (map fst fs), Bytes png)]) \<and>
         Inches 4 = 3657600 \<and>
         (\<exists>rest. after_first_comma src = Inr rest \<and>
                 img_data = takeWhile (\<lambda>c. c \<noteq> 44) rest) \<and>
         (\<forall>els d0 fs0 d1 fs1. NoteApp_loop L els d0 fs0 = (Inr d1, fs1) \<longrightarrow>
            (\<exists>temps.
               fs1 = fs0 @ zip temps
                       (map Bytes (picture_blobs (concat (map (node_items L) els)))) \<and>
               length temps = length (picture_blobs (concat (map (node_items L) els))) \<and>
               distinct temps \<and> set temps \<inter> fst ` set fs0 = {}))"
proof -
  let ?tmp = "mktemp L (lit ''.png'') (map fst fs)"
  have p: "png_of L el = Inr png"
    using assms(2-6) by (simp add: png_of_def)
  have np: "name el \<noteq> Some (lit ''p'')"
    using assms(1) lit_img_neq_p by simp
  have v: "NoteApp_visit L el doc fs = NoteApp_img_branch L el doc fs"
    using assms(1) np by (simp add: NoteApp_visit_def)
  have "?tmp \<notin> fst ` set fs" using assms(7) by (metis set_map)
  then have u: "AList.update ?tmp (Bytes png) fs = fs @ [(?tmp, Bytes png)]"
    by (rule update_fresh)
  have a: "NoteApp_visit L el doc fs =
           (Inr (doc @ [Picture png (Inches 4)]), fs @ [(?tmp, Bytes png)])"
    using img_branch_fst [of L el doc fs] img_branch_snd [OF p, of doc fs] p v u
    by (simp add: prod_eq_iff)
  have m: "NoteModel_visit L el doc fs =
           (Inr (doc @ [Picture png (Inches 4)]), fs @ [(?tmp, Bytes png)])"
    using a np by (simp add: model_visit_rel try_except_def)
  have i: "Inches 4 = 3657600" by (simp add: Inches_def)
  have s: "\<exists>rest. after_first_comma src = Inr rest \<and>
                 img_data = takeWhile (\<lambda>c. c \<noteq> 44) rest"
    using assms(3) by (rule second_piece_spec)
  have t: "\<forall>els d0 fs0 d1 fs1. NoteApp_loop L els d0 fs0 = (Inr d1, fs1) \<longrightarrow>
            (\<exists>temps.
               fs1 = fs0 @ zip temps
                       (map Bytes (picture_blobs (concat (map (node_items L) els)))) \<and>
               length temps = length (picture_blobs (concat (map (node_items L) els))) \<and>
               distinct temps \<and> set temps \<inter> fst ` set fs0 = {})"
    using loop_temp_files [OF assms(7)] by blast
  show ?thesis by (rule conjI [OF a conjI [OF m conjI [OF i conjI [OF s t]]]])
qed

theorem C2_image_becomes_picture_witness:
  "name demo_img = Some (lit ''img'') \<and>
   getitem demo_img (lit ''src'') = Inr (demo_src) \<and>
   list_getitem (split_on 44 (demo_src)) 1 = Inr (demo_png_b64) \<and>
   b64decode (demo_libs demo_soup [10]) (demo_png_b64) = Inr demo_png \<and>
   image_open (demo_libs demo_soup [10]) demo_png = Inr demo_png \<and>
   png_save (demo_libs demo_soup [10]) demo_png = Inr demo_png \<and>
   (\<forall>names. mktemp (demo_libs demo_soup [10]) (lit ''.png'') names \<notin> set names) \<and>
   NoteModel_visit (demo_libs demo_soup [10]) demo_img [] [] =
     (Inr [Picture demo_png 3657600],
      [(lit ''t.png'', Bytes demo_png)])"
proof -
  have f: "\<forall>names. mktemp (demo_libs demo_soup [10]) (lit ''.png'') names \<notin> set names"
    by (simp add: demo_mktemp_fresh)
  note w = C2_image_becomes_picture
    [OF demo_names(2) demo_img_src demo_piece demo_lib_calls(1) demo_lib_calls(2)
        demo_lib_calls(3) f, of "[]" "[]"]
  have "NoteModel_visit (demo_libs demo_soup [10]) demo_img [] [] =
     (Inr [Picture demo_png 3657600],
      [(lit ''t.png'', Bytes demo_png)])"
    using w [THEN conjunct2, THEN conjunct1] w [THEN conjunct2, THEN conjunct2, THEN conjunct1]
    by (simp add: demo_mktemp_empty)
  then show ?thesis
    using demo_names(2) demo_img_src demo_piece demo_lib_calls f by blast
qed

subsection \<open>C3: the format is selected by the suffix of the path\<close>

text \<open>
  C3, as stated, fails where it says that the content is written verbatim as UTF-8 text:
  both \<open>save_to_file\<close> functions open the file in text mode, which writes the line
  separator of the platform for every line feed. Where that separator is carriage return
  and line feed, the export of the four characters \<open><p>\<close> and line feed to \<open>note.txt\<close>
  leaves a file of five bytes, not the four bytes of the UTF-8 encoding of the content.
\<close>

theorem C3_verbatim_counterexample:
  "\<not> endswith (lit ''note.txt'') (lit ''.docx'') \<and>
   linesep (demo_libs demo_plain_soup [13, 10]) = [13, 10] \<and>
   utf8_encode [60, 112, 62, 10] = Some [60, 112, 62, 10] \<and>
   NoteApp_save_to_file (demo_libs demo_plain_soup [13, 10]) [60, 112, 62, 10]
       (lit ''note.txt'') [] =
     (Inr (), [(lit ''note.txt'', Bytes [60, 112, 62, 13, 10])]) \<and>
   NoteModel_save_to_file (demo_libs demo_plain_soup [13, 10]) [60, 112, 62, 10]
       (lit ''note.txt'') [] =
     (Inr True, [(lit ''note.txt'', Bytes [60, 112, 62, 13, 10])]) \<and>
   NoteApp_save_to_file (demo_libs demo_plain_soup [13, 10]) [60, 112, 62, 10]
       (lit ''note.txt'') [] \<noteq>
     (Inr (), [(lit ''note.txt'', Bytes [60, 112, 62, 10])]) \<and>
   NoteModel_save_to_file (demo_libs demo_plain_soup [13, 10]) [60, 112, 62, 10]
       (lit ''note.txt'') [] \<noteq>
     (Inr True, [(lit ''note.txt'', Bytes [60, 112, 62, 10])])"
proof -
  have a: "NoteApp_save_to_file (demo_libs demo_plain_soup [13, 10]) [60, 112, 62, 10]
       (lit ''note.txt'') [] =
     (Inr (), [(lit ''note.txt'', Bytes [60, 112, 62, 13, 10])])"
    by (simp add: app_save_to_file_text demo_note_txt(1) demo_note_txt_write)
  have m: "NoteModel_save_to_file (demo_libs demo_plain_soup [13, 10]) [60, 112, 62, 10]
       (lit ''note.txt'') [] =
     (Inr True, [(lit ''note.txt'', Bytes [60, 112, 62, 13, 10])])"
    by (simp add: model_save_to_file_text demo_note_txt(1) demo_note_txt_write)
  show ?thesis
    using demo_note_txt(1) demo_note_txt(2) demo_linesep [of demo_plain_soup "[13, 10]"]
    by (simp add: a m del: utf8_encode.simps)
qed

text \<open>
  C3, amended. \<open>endswith\<close> holds exactly of the paths that are some text followed by
  \<open>.docx\<close>. On such a path both \<open>save_to_file\<close> functions run the conversion: when the call
  returns, the content was parsed, it has a body, and the file at the path is the document
  that holds what the descendants of the body add, in order. On every other path they hand
  the content string, unchanged, to the UTF-8 text writer, which creates the file or
  replaces what it held and writes the encoding of the content with every line feed
  replaced by the line separator of the platform; these are the bytes of the UTF-8
  encoding of the content itself when that separator is a line feed or the content holds no
  line feed. On a path without the suffix no function of the conversion takes part (the
  result is the same under any HTML parser, decoder, image library, document library and
  temporary-file naming) and no document file is created.
\<close>

theorem C3_format_selected_by_suffix:
  "(endswith file_name (lit ''.docx'') \<longleftrightarrow> (\<exists>stem. file_name = stem @ lit ''.docx'')) \<and>
   (endswith file_name (lit ''.docx'') \<longrightarrow>
      NoteApp_save_to_file L content file_name fs =
        NoteApp_save_as_docx L content file_name fs \<and>
      NoteModel_save_to_file L content file_name fs =
        (case NoteModel_save_as_docx L content file_name fs of
           (Inl e, fs') \<Rightarrow> (Inl (reraise ''Save failed: '' e), fs')
         | (Inr u, fs') \<Rightarrow> (Inr True, fs')) \<and>
      (\<forall>fs'. NoteApp_save_to_file L content file_name fs = (Inr (), fs') \<longrightarrow>
         (\<exists>soup b. parse_html L content = Inr soup \<and> body soup = Some b \<and>
            map_of fs' file_name = Some (Docx (concat (map (node_items L) (descendants b)))) \<and>
            NoteModel_save_to_file L content file_name fs = (Inr True, fs')))) \<and>
   (\<not> endswith file_name (lit ''.docx'') \<longrightarrow>
      NoteApp_save_to_file L content file_name fs = write_text L file_name content fs \<and>
      NoteModel_save_to_file L content file_name fs =
        (case write_text L file_name content fs of
           (Inl e, fs') \<Rightarrow> (Inl (reraise ''Save failed: '' e), fs')
         | (Inr u, fs') \<Rightarrow> (Inr True, fs')) \<and>
      (io_error L' = io_error L \<and> linesep L' = linesep L \<and> encode_error L' = encode_error L \<longrightarrow>
         NoteApp_save_to_file L' content file_name fs =
           NoteApp_save_to_file L content file_name fs \<and>
         NoteModel_save_to_file L' content file_name fs =
           NoteModel_save_to_file L content file_name fs) \<and>
      (\<forall>k d. map_of (snd (NoteApp_save_to_file L content file_name fs)) k = Some (Docx d) \<longrightarrow>
         map_of fs k = Some (Docx d)) \<and>
      (io_error L file_name = None \<and>
       utf8_encode (translate_newlines (linesep L) content) = Some bs \<longrightarrow>
         NoteApp_save_to_file L content file_name fs =
           (Inr (), AList.update file_name (Bytes bs) fs) \<and>
         NoteModel_save_to_file L content file_name fs =
           (Inr True, AList.update file_name (Bytes bs) fs) \<and>
         map_of (AList.update file_name (Bytes bs) fs) = (map_of fs)(file_name \<mapsto> Bytes bs)) \<and>
      (io_error L file_name = None \<and> (linesep L = [10] \<or> 10 \<notin> set content) \<and>
       utf8_encode content = Some bs \<longrightarrow>
         NoteApp_save_to_file L content file_name fs =
           (Inr (), AList.update file_name (Bytes bs) fs) \<and>
         NoteModel_save_to_file L content file_name fs =
           (Inr True, AList.update file_name (Bytes bs) fs)))"
  (is "?A \<and> (?D \<longrightarrow> ?B1 \<and> ?B2 \<and> ?B3) \<and>
       (\<not> ?D \<longrightarrow> ?C1 \<and> ?C2 \<and> ?C3 \<and> ?C4 \<and> ?C5 \<and> ?C6)")
proof -
  have a: ?A by (rule endswith_iff)
  have b: "?B1 \<and> ?B2 \<and> ?B3" if d: ?D
  proof -
    have b1: ?B1 by (simp add: NoteApp_save_to_file_def d)
    have b2: ?B2 by (rule model_save_to_file_docx [OF d])
    have b3: ?B3
    proof (intro allI impI)
      fix fs'
      assume "NoteApp_save_to_file L content file_name fs = (Inr (), fs')"
      then have s: "NoteApp_save_as_docx L content file_name fs = (Inr (), fs')"
        using b1 by simp
      obtain soup b where p: "parse_html L content = Inr soup" and q: "body soup = Some b"
        using app_docx_success_parse [OF s] by blast
      obtain fs1 where
        "fs' = AList.update file_name (Docx (concat (map (node_items L) (descendants b)))) fs1"
        using app_docx_success [OF s p q] by blast
      then have f: "map_of fs' file_name =
          Some (Docx (concat (map (node_items L) (descendants b))))"
        by (simp add: update_conv')
      have "NoteModel_save_as_docx L content file_name fs = (Inr (), fs')"
        using s by (rule model_docx_of_app_success)
      then have m: "NoteModel_save_to_file L content file_name fs = (Inr True, fs')"
        by (simp add: b2)
      show "\<exists>soup b. parse_html L content = Inr soup \<and> body soup = Some b \<and>
            map_of fs' file_name = Some (Docx (concat (map (node_items L) (descendants b)))) \<and>
            NoteModel_save_to_file L content file_name fs = (Inr True, fs')"
        using p q f m by blast
    qed
    show ?thesis by (rule conjI [OF b1 conjI [OF b2 b3]])
  qed
  have c: "?C1 \<and> ?C2 \<and> ?C3 \<and> ?C4 \<and> ?C5 \<and> ?C6" if n: "\<not> ?D"
  proof -
    have c1: ?C1 by (rule app_save_to_file_text [OF n])
    have c2: ?C2 by (rule model_save_to_file_text [OF n])
    have c3: ?C3
      using write_text_same_platform [of L' L file_name content fs]
      by (simp add: app_save_to_file_text model_save_to_file_text n)
    have c4: ?C4
    proof (intro impI allI)
      fix k d
      assume m: "map_of (snd (NoteApp_save_to_file L content file_name fs)) k = Some (Docx d)"
      obtain r fs' where w: "write_text L file_name content fs = (r, fs')"
        by (cases "write_text L file_name content fs")
      have "snd (NoteApp_save_to_file L content file_name fs) = fs'"
        using w by (simp add: c1)
      then show "map_of fs k = Some (Docx d)"
        using write_text_no_docx [OF w] m by simp
    qed
    have c5: ?C5
      by (simp add: c1 c2 write_text_success update_conv')
    have c6: ?C6
    proof
      assume h: "io_error L file_name = None \<and> (linesep L = [10] \<or> 10 \<notin> set content) \<and>
                 utf8_encode content = Some bs"
      then have "translate_newlines (linesep L) content = content"
        using translate_newlines_id [of "linesep L" content] by blast
      then have "write_text L file_name content fs =
                   (Inr (), AList.update file_name (Bytes bs) fs)"
        using h write_text_success [of L file_name content bs fs] by simp
      then show "NoteApp_save_to_file L content file_name fs =
           (Inr (), AList.update file_name (Bytes bs) fs) \<and>
         NoteModel_save_to_file L content file_name fs =
           (Inr True, AList.update file_name (Bytes bs) fs)"
        by (simp add: c1 c2)
    qed
    show ?thesis
      by (rule conjI [OF c1 conjI [OF c2 conjI [OF c3 conjI [OF c4 conjI [OF c5 c6]]]]])
  qed
  show ?thesis
    by (rule conjI [OF a conjI [OF impI [OF b] impI [OF c]]])
qed

theorem C3_format_selected_by_suffix_witness:
  "endswith (lit ''n.docx'') (lit ''.docx'') \<and>
   NoteApp_save_to_file (demo_libs demo_soup [10]) [97, 10, 98] (lit ''n.docx'') [] =
     (Inr (), demo_fs) \<and>
   NoteModel_save_to_file (demo_libs demo_soup [10]) [97, 10, 98] (lit ''n.docx'') [] =
     (Inr True, demo_fs) \<and>
   map_of demo_fs (lit ''n.docx'') =
     Some (Docx [Paragraph (lit ''Hi!''), Picture demo_png 3657600]) \<and>
   \<not> endswith (lit ''n.html'') (lit ''.docx'') \<and>
   io_error (demo_libs demo_soup [10]) (lit ''n.html'') = None \<and>
   linesep (demo_libs demo_soup [10]) = [10] \<and>
   utf8_encode [97, 10, 98] = Some [97, 10, 98] \<and>
   NoteApp_save_to_file (demo_libs demo_soup [10]) [97, 10, 98] (lit ''n.html'') [] =
     (Inr (), [(lit ''n.html'', Bytes [97, 10, 98])]) \<and>
   NoteModel_save_to_file (demo_libs demo_soup [10]) [97, 10, 98] (lit ''n.html'') [] =
     (Inr True, [(lit ''n.html'', Bytes [97, 10, 98])])"
proof -
  let ?L = "demo_libs demo_soup [10]"
  note s = demo_app_save_docx [of "[10]" "[97, 10, 98]"]
  have l: "linesep ?L = [10] \<or> 10 \<notin> set [97, 10, 98]"
    by (simp add: demo_linesep)
  note d = C3_format_selected_by_suffix [of "lit ''n.docx''" ?L "[97, 10, 98]" "[]"]
  note h = C3_format_selected_by_suffix
    [of "lit ''n.html''" ?L "[97, 10, 98]" "[]" ?L "[97, 10, 98]"]
  note d1 = d [THEN conjunct2, THEN conjunct1, THEN mp, OF demo_endswith_docx]
  note d2 = d1 [THEN conjunct2, THEN conjunct2, rule_format, OF s]
  have m: "NoteModel_save_to_file ?L [97, 10, 98] (lit ''n.docx'') [] = (Inr True, demo_fs)"
    using d2 by blast
  have f: "map_of demo_fs (lit ''n.docx'') =
     Some (Docx [Paragraph (lit ''Hi!''), Picture demo_png 3657600])"
    by (simp add: demo_fs_def lit_def)
  note h1 = h [THEN conjunct2, THEN conjunct2, THEN mp, OF demo_not_docx]
  note h2 = h1 [THEN conjunct2, THEN conjunct2, THEN conjunct2, THEN conjunct2, THEN conjunct2,
      THEN mp, OF conjI [OF demo_io conjI [OF l demo_utf8]]]
  have u: "AList.update (lit ''n.html'') (Bytes [97, 10, 98]) [] = [(lit ''n.html'', Bytes [97, 10, 98])]"
    by simp
  note b = h2 [THEN conjunct1, unfolded u] h2 [THEN conjunct2, unfolded u]
  show ?thesis
    using demo_endswith_docx s m f demo_not_docx demo_io [of demo_soup "[10]" "lit ''n.html''"]
      demo_linesep [of demo_soup "[10]"] demo_utf8 b
    by (intro conjI)
qed

subsection \<open>C4: every failure is raised as one wrapped exception\<close>

text \<open>
  C4 (for \<open>NoteModel\<close>, the exporter with the handlers). Whatever \<open>save_to_file\<close> raises is
  an \<open>Exception\<close> whose message is \<open>Save failed: \<close> followed by the message of the
  exception it handled, which it carries as its context: nothing leaves unwrapped. The
  statements of the conversion are those of \<open>NoteApp.save_as_docx\<close>, which has no handler;
  when they raise \<open>e0\<close> (while parsing, decoding or handling an image), the call raises a
  single exception, returns no result, its message ends with the message of \<open>e0\<close>, and the
  chain of contexts leads to the first cause of \<open>e0\<close>.
\<close>

theorem C4_export_error_wraps_cause:
  "(NoteModel_save_to_file L c p fs = (Inl e, fs') \<longrightarrow>
      (\<exists>cause. e = Exn (lit ''Exception'') (lit ''Save failed: '' @ str cause) (Some cause))) \<and>
   (endswith p (lit ''.docx'') \<and> NoteApp_save_as_docx L c p fs = (Inl e0, fs0) \<longrightarrow>
      (\<exists>e1. NoteModel_save_to_file L c p fs = (Inl e1, fs0) \<and>
         (e1 = reraise ''Save failed: '' (reraise ''DOCX conversion failed: '' e0) \<or>
          e1 = reraise ''Save failed: ''
                 (reraise ''DOCX conversion failed: '' (reraise ''Image processing failed: '' e0))) \<and>
         exn_class e1 = lit ''Exception'' \<and>
         root_cause e1 = root_cause e0 \<and>
         endswith (str e1) (str e0)))"
proof -
  have a: "NoteModel_save_to_file L c p fs = (Inl e, fs') \<longrightarrow>
      (\<exists>cause. e = Exn (lit ''Exception'') (lit ''Save failed: '' @ str cause) (Some cause))"
    using model_save_to_file_Inl [of L c p fs e fs'] by (auto simp: reraise_def)
  have b: "endswith p (lit ''.docx'') \<and> NoteApp_save_as_docx L c p fs = (Inl e0, fs0) \<longrightarrow>
      (\<exists>e1. NoteModel_save_to_file L c p fs = (Inl e1, fs0) \<and>
         (e1 = reraise ''Save failed: '' (reraise ''DOCX conversion failed: '' e0) \<or>
          e1 = reraise ''Save failed: ''
                 (reraise ''DOCX conversion failed: '' (reraise ''Image processing failed: '' e0))) \<and>
         exn_class e1 = lit ''Exception'' \<and>
         root_cause e1 = root_cause e0 \<and>
         endswith (str e1) (str e0))"
  proof
    assume h: "endswith p (lit ''.docx'') \<and> NoteApp_save_as_docx L c p fs = (Inl e0, fs0)"
    then have d: "endswith p (lit ''.docx'')" and f: "NoteApp_save_as_docx L c p fs = (Inl e0, fs0)"
      by simp_all
    let ?e1 = "reraise ''Save failed: '' (reraise ''DOCX conversion failed: '' e0)"
    let ?e2 = "reraise ''Save failed: ''
                 (reraise ''DOCX conversion failed: '' (reraise ''Image processing failed: '' e0))"
    have p1: "exn_class ?e1 = lit ''Exception'' \<and> root_cause ?e1 = root_cause e0 \<and>
              endswith (str ?e1) (str e0)"
      using endswith_append [of "lit ''Save failed: '' @ lit ''DOCX conversion failed: ''" "str e0"]
      by (simp add: exn_class_reraise root_cause_reraise str_reraise)
    have p2: "exn_class ?e2 = lit ''Exception'' \<and> root_cause ?e2 = root_cause e0 \<and>
              endswith (str ?e2) (str e0)"
      using endswith_append [of "lit ''Save failed: '' @ lit ''DOCX conversion failed: '' @
                lit ''Image processing failed: ''" "str e0"]
      by (simp add: exn_class_reraise root_cause_reraise str_reraise)
    from model_docx_of_app_failure [OF f]
    have "NoteModel_save_to_file L c p fs = (Inl ?e1, fs0) \<or>
          NoteModel_save_to_file L c p fs = (Inl ?e2, fs0)"
      using d by (auto simp: model_save_to_file_docx)
    then show "\<exists>e1. NoteModel_save_to_file L c p fs = (Inl e1, fs0) \<and>
         (e1 = ?e1 \<or> e1 = ?e2) \<and>
         exn_class e1 = lit ''Exception'' \<and>
         root_cause e1 = root_cause e0 \<and>
         endswith (str e1) (str e0)"
      using p1 p2 by blast
  qed
  show ?thesis using a b by blast
qed

theorem C4_export_error_wraps_cause_witness:
  "endswith (lit ''n.docx'') (lit ''.docx'') \<and>
   NoteApp_save_as_docx (demo_libs demo_bad_soup [10]) (lit ''<html>'') (lit ''n.docx'') [] =
     (Inl IndexError, []) \<and>
   NoteModel_save_to_file (demo_libs demo_bad_soup [10]) (lit ''<html>'') (lit ''n.docx'') [] =
     (Inl (reraise ''Save failed: ''
            (reraise ''DOCX conversion failed: ''
              (reraise ''Image processing failed: '' IndexError))), []) \<and>
   str (reraise ''Save failed: ''
            (reraise ''DOCX conversion failed: ''
              (reraise ''Image processing failed: '' IndexError))) =
     lit ''Save failed: DOCX conversion failed: Image processing failed: list index out of range''"
proof -
  let ?L = "demo_libs demo_bad_soup [10]"
  note f = demo_bad_export [of "[10]" "lit ''<html>''" "lit ''n.docx''"]
  obtain e1 where
    m: "NoteModel_save_to_file ?L (lit ''<html>'') (lit ''n.docx'') [] = (Inl e1, [])"
    and c: "e1 = reraise ''Save failed: '' (reraise ''DOCX conversion failed: '' IndexError) \<or>
          e1 = reraise ''Save failed: ''
                 (reraise ''DOCX conversion failed: ''
                   (reraise ''Image processing failed: '' IndexError))"
    using C4_export_error_wraps_cause [of ?L "lit ''<html>''" "lit ''n.docx''" "[]" _ _ IndexError "[]"]
      demo_endswith_docx f by blast
  have v: "NoteModel_save_to_file ?L (lit ''<html>'') (lit ''n.docx'') [] =
     (Inl (reraise ''Save failed: ''
            (reraise ''DOCX conversion failed: ''
              (reraise ''Image processing failed: '' IndexError))), [])"
    using lit_img_neq_p
    by (simp add: model_save_to_file_docx demo_endswith_docx NoteModel_save_as_docx_def demo_parse
        demo_bad_body_found demo_bad_descendants NoteModel_visit_def
        NoteModel_add_image_to_doc_def demo_bad_img_facts split_no_sep list_getitem_def
        try_except_def add_paragraph_def demo_paragraph_ok)
  have s: "str (reraise ''Save failed: ''
            (reraise ''DOCX conversion failed: ''
              (reraise ''Image processing failed: '' IndexError))) =
     lit ''Save failed: DOCX conversion failed: Image processing failed: list index out of range''"
    by (simp add: reraise_def IndexError_def lit_def)
  show ?thesis using demo_endswith_docx f m c v s by simp
qed

subsection \<open>C5: a malformed image source fails the whole export\<close>

text \<open>
  C5, as stated, fails for a payload that is not valid base64: \<open>base64.b64decode\<close> is
  called without validation and skips every character outside the base64 alphabet. The
  source of \<open>demo_junk_img\<close> is \<open>data:image/png;base64,\<close> followed by the base64 text of a
  PNG file of one pixel with two exclamation marks put after its fourth character. The
  exclamation mark is not a base64 character, yet the decoder returns the PNG file, and
  the export of the note \<open><body><img src="\<dots>"></body>\<close> succeeds in both
  implementations and saves a document with one picture.
\<close>

theorem C5_lenient_decoder_counterexample:
  "parse_html (demo_libs demo_junk_soup [10]) demo_junk_html = Inr demo_junk_soup \<and>
   body demo_junk_soup = Some demo_junk_body \<and>
   descendants demo_junk_body = [demo_junk_img] \<and>
   name demo_junk_img = Some (lit ''img'') \<and>
   getitem demo_junk_img (lit ''src'') = Inr demo_junk_src \<and>
   list_getitem (split_on 44 demo_junk_src) 1 = Inr demo_junk_payload \<and>
   33 \<in> set demo_junk_payload \<and>
   b64_index 33 = None \<and>
   b64decode (demo_libs demo_junk_soup [10]) demo_junk_payload = Inr demo_png \<and>
   fst (NoteApp_save_to_file (demo_libs demo_junk_soup [10]) demo_junk_html (lit ''n.docx'') []) =
     Inr () \<and>
   fst (NoteModel_save_to_file (demo_libs demo_junk_soup [10]) demo_junk_html (lit ''n.docx'') []) =
     Inr True \<and>
   length (picture_blobs (saved_document
     (snd (NoteApp_save_to_file (demo_libs demo_junk_soup [10]) demo_junk_html (lit ''n.docx'') []))
     (lit ''n.docx''))) = 1 \<and>
   length (picture_blobs (saved_document
     (snd (NoteModel_save_to_file (demo_libs demo_junk_soup [10]) demo_junk_html (lit ''n.docx'') []))
     (lit ''n.docx''))) = 1"
proof -
  have d: "b64decode (demo_libs demo_junk_soup [10]) demo_junk_payload = Inr demo_png"
    by (simp add: demo_libs_def demo_junk_decode)
  show ?thesis
    using demo_parse [of demo_junk_soup "[10]" demo_junk_html] demo_junk_facts demo_junk_piece
      demo_junk_not_base64 d
    by (simp add: demo_junk_save demo_junk_saved)
qed

text \<open>
  C5, amended. If a descendant of the body is an \<open>img\<close> element whose \<open>src\<close> has no comma,
  or whose payload the base64 decoder rejects (it skips the characters outside its
  alphabet and rejects what is then not a whole number of bytes or is wrongly padded), or
  whose decoded bytes the image decoder rejects, the export fails in both implementations:
  the image is not skipped, the document is never saved, and no document file appears or
  changes anywhere in the file system.
\<close>

theorem C5_malformed_image_fails_export:
  assumes "parse_html L c = Inr soup" and "body soup = Some b"
    and "el \<in> set (descendants b)" and "name el = Some (lit ''img'')"
    and "getitem el (lit ''src'') = Inr src"
    and "44 \<notin> set src \<or>
         (\<exists>d e. list_getitem (split_on 44 src) 1 = Inr d \<and> b64decode L d = Inl e) \<or>
         (\<exists>d bs e. list_getitem (split_on 44 src) 1 = Inr d \<and> b64decode L d = Inr bs \<and>
            image_open L bs = Inl e)"
  shows "\<exists>e fs'. NoteApp_save_as_docx L c p fs = (Inl e, fs') \<and>
           (\<exists>e'. NoteModel_save_as_docx L c p fs = (Inl e', fs')) \<and>
           (endswith p (lit ''.docx'') \<longrightarrow>
              NoteApp_save_to_file L c p fs = (Inl e, fs') \<and>
              (\<exists>e'. NoteModel_save_to_file L c p fs = (Inl e', fs'))) \<and>
           (\<forall>k d. map_of fs' k = Some (Docx d) \<longrightarrow> map_of fs k = Some (Docx d))"
proof -
  obtain e0 where "png_of L el = Inl e0"
    using malformed_png_of [OF assms(5) assms(6)] by blast
  then have "contribution L el = Inl e0"
    using assms(4) lit_img_neq_p by (simp add: contribution_def)
  then obtain e fs' where l: "NoteApp_loop L (descendants b) [] fs = (Inl e, fs')"
    using loop_failure [OF assms(3)] by blast
  have a: "NoteApp_save_as_docx L c p fs = (Inl e, fs')"
    using app_docx_loop_failure [OF assms(1) assms(2) l] .
  have m: "\<exists>e'. NoteModel_save_as_docx L c p fs = (Inl e', fs')"
    using model_docx_of_app_failure [OF a] by blast
  have s: "endswith p (lit ''.docx'') \<longrightarrow>
              NoteApp_save_to_file L c p fs = (Inl e, fs') \<and>
              (\<exists>e'. NoteModel_save_to_file L c p fs = (Inl e', fs'))"
    using a m by (auto simp: NoteApp_save_to_file_def model_save_to_file_docx)
  have d: "\<forall>k d. map_of fs' k = Some (Docx d) \<longrightarrow> map_of fs k = Some (Docx d)"
    using loop_only_bytes [OF l] by (metis fcontent.distinct(1) option.inject)
  show ?thesis using a m s d by blast
qed

theorem C5_malformed_image_fails_export_witness:
  "parse_html (demo_libs demo_bad_soup [10]) (lit ''<html>'') = Inr demo_bad_soup \<and>
   body demo_bad_soup = Some demo_bad_body \<and>
   demo_bad_img \<in> set (descendants demo_bad_body) \<and>
   name demo_bad_img = Some (lit ''img'') \<and>
   getitem demo_bad_img (lit ''src'') = Inr (lit ''photo.png'') \<and>
   44 \<notin> set (lit ''photo.png'') \<and>
   (\<exists>e fs'. NoteApp_save_as_docx (demo_libs demo_bad_soup [10]) (lit ''<html>'') (lit ''n.docx'') [] =
       (Inl e, fs') \<and>
     (\<exists>e'. NoteModel_save_to_file (demo_libs demo_bad_soup [10]) (lit ''<html>'') (lit ''n.docx'') [] =
       (Inl e', fs')))"
proof -
  have h1: "parse_html (demo_libs demo_bad_soup [10]) (lit ''<html>'') = Inr demo_bad_soup"
    by (rule demo_parse)
  have h3: "demo_bad_img \<in> set (descendants demo_bad_body)"
    by (simp add: demo_bad_descendants)
  have h6: "44 \<notin> set (lit ''photo.png'') \<or>
         (\<exists>d e. list_getitem (split_on 44 (lit ''photo.png'')) 1 = Inr d \<and>
            b64decode (demo_libs demo_bad_soup [10]) d = Inl e) \<or>
         (\<exists>d bs e. list_getitem (split_on 44 (lit ''photo.png'')) 1 = Inr d \<and>
            b64decode (demo_libs demo_bad_soup [10]) d = Inr bs \<and>
            image_open (demo_libs demo_bad_soup [10]) bs = Inl e)"
    using demo_bad_img_facts(3) by blast
  from C5_malformed_image_fails_export
    [OF h1 demo_bad_body_found h3 demo_bad_img_facts(1) demo_bad_img_facts(2) h6,
     of "lit ''n.docx''" "[]"]
    h1 demo_bad_body_found h3 demo_bad_img_facts demo_endswith_docx
  show ?thesis by blast
qed

subsection \<open>C6: the bytes of a text export\<close>

text \<open>
  C6, as stated, fails: the file is opened in text mode with the default newline handling,
  so on a platform whose line separator is CR LF the content \<open>a\<newline>b\<close> (code points 97, 10,
  98) is written as the four bytes 97, 13, 10, 98, which is not its UTF-8 encoding.
\<close>

theorem C6_line_separator_counterexample:
  "\<not> endswith (lit ''n.html'') (lit ''.docx'') \<and>
   utf8_encode [97, 10, 98] = Some [97, 10, 98] \<and>
   NoteApp_save_to_file (demo_libs demo_soup [13, 10]) [97, 10, 98] (lit ''n.html'') [] =
     (Inr (), [(lit ''n.html'', Bytes [97, 13, 10, 98])]) \<and>
   NoteModel_save_to_file (demo_libs demo_soup [13, 10]) [97, 10, 98] (lit ''n.html'') [] =
     (Inr True, [(lit ''n.html'', Bytes [97, 13, 10, 98])]) \<and>
   map_of (snd (NoteModel_save_to_file (demo_libs demo_soup [13, 10]) [97, 10, 98]
                 (lit ''n.html'') [])) (lit ''n.html'') \<noteq>
     Some (Bytes [97, 10, 98])"
  by (simp add: demo_not_docx demo_utf8 app_save_to_file_text model_save_to_file_text
      write_text_success demo_io demo_linesep demo_translate_crlf demo_utf8_crlf
      del: utf8_encode.simps)

text \<open>
  C6, amended. On a path that does not end in \<open>.docx\<close> and can be opened for writing, the
  bytes written are the UTF-8 encoding of the content string after every line feed has been
  replaced by the platform line separator; they are the UTF-8 encoding of the content
  string itself when the line separator is a line feed or the content has no line feed.
  Exporting again leaves the same file system.
\<close>

theorem C6_text_export_bytes:
  assumes "\<not> endswith file_name (lit ''.docx'')" and "io_error L file_name = None"
    and "utf8_encode (translate_newlines (linesep L) content) = Some bs"
  shows "NoteApp_save_to_file L content file_name fs =
           (Inr (), AList.update file_name (Bytes bs) fs) \<and>
         NoteModel_save_to_file L content file_name fs =
           (Inr True, AList.update file_name (Bytes bs) fs) \<and>
         map_of (AList.update file_name (Bytes bs) fs) file_name = Some (Bytes bs) \<and>
         NoteApp_save_to_file L content file_name (AList.update file_name (Bytes bs) fs) =
           (Inr (), AList.update file_name (Bytes bs) fs) \<and>
         NoteModel_save_to_file L content file_name (AList.update file_name (Bytes bs) fs) =
           (Inr True, AList.update file_name (Bytes bs) fs) \<and>
         (linesep L = [10] \<or> 10 \<notin> set content \<longrightarrow> utf8_encode content = Some bs)"
proof -
  have w: "write_text L file_name content fs0 = (Inr (), AList.update file_name (Bytes bs) fs0)"
    for fs0
    using assms(2) assms(3) by (rule write_text_success)
  have i: "AList.update file_name (Bytes bs) (AList.update file_name (Bytes bs) fs) =
           AList.update file_name (Bytes bs) fs"
    by simp
  have t: "linesep L = [10] \<or> 10 \<notin> set content \<longrightarrow> utf8_encode content = Some bs"
    using assms(3) translate_newlines_id [of "linesep L" content] by auto
  show ?thesis
    using assms(1) t by (simp add: app_save_to_file_text model_save_to_file_text w update_conv')
qed

theorem C6_text_export_bytes_witness:
  "\<not> endswith (lit ''n.html'') (lit ''.docx'') \<and>
   io_error (demo_libs demo_soup [10]) (lit ''n.html'') = None \<and>
   utf8_encode (translate_newlines (linesep (demo_libs demo_soup [10])) [97, 10, 98]) =
     Some [97, 10, 98] \<and>
   linesep (demo_libs demo_soup [10]) = [10] \<and>
   NoteModel_save_to_file (demo_libs demo_soup [10]) [97, 10, 98] (lit ''n.html'') [] =
     (Inr True, [(lit ''n.html'', Bytes [97, 10, 98])]) \<and>
   NoteModel_save_to_file (demo_libs demo_soup [10]) [97, 10, 98] (lit ''n.html'')
       [(lit ''n.html'', Bytes [97, 10, 98])] =
     (Inr True, [(lit ''n.html'', Bytes [97, 10, 98])]) \<and>
   utf8_encode [97, 10, 98] = Some [97, 10, 98]"
proof -
  have t: "utf8_encode (translate_newlines (linesep (demo_libs demo_soup [10])) [97, 10, 98]) =
     Some [97, 10, 98]"
    by (simp add: demo_linesep translate_newlines_id demo_utf8 del: utf8_encode.simps)
  from C6_text_export_bytes [OF demo_not_docx demo_io t, of "[]"] demo_not_docx demo_io t
    demo_linesep [of demo_soup "[10]"] demo_utf8
  show ?thesis by (simp del: utf8_encode.simps)
qed

subsection \<open>C7: an image inside a paragraph\<close>

text \<open>
  C7. When an \<open>img\<close> element lies below a \<open>p\<close> element of the body, a successful export has
  visited both: the saved document holds the paragraph with the flattened text of the
  \<open>p\<close> element and, later, the picture of the \<open>img\<close> element, as two separate items.
\<close>

theorem C7_nested_image_dual_visit:
  assumes "parse_html L content = Inr soup" and "body soup = Some b"
    and "P \<in> set (descendants b)" and "name P = Some (lit ''p'')"
    and "I \<in> set (descendants P)" and "name I = Some (lit ''img'')"
    and "NoteApp_save_as_docx L content file_name fs = (Inr (), fs')"
  shows "NoteModel_save_as_docx L content file_name fs = (Inr (), fs') \<and>
         (\<exists>png pre mid post. png_of L I = Inr png \<and>
            map_of fs' file_name =
              Some (Docx (pre @ Paragraph (get_text P) # mid @ Picture png (Inches 4) # post)))"
proof -
  let ?ni = "node_items L"
  obtain fs1 where c: "contributions L (descendants b) = Inr (concat (map ?ni (descendants b)))"
    and f: "fs' = AList.update file_name (Docx (concat (map ?ni (descendants b)))) fs1"
    using app_docx_success [OF assms(7) assms(1) assms(2)] by blast
  obtain xs ys where d1: "descendants b = xs @ P # descendants P @ ys"
    using descendants_split [OF assms(3)] by blast
  obtain us vs where d2: "descendants P = us @ I # vs"
    using assms(5) by (meson split_list)
  have "I \<in> set (descendants b)" using d1 d2 by simp
  then have "\<not> (\<exists>e. contribution L I = Inl e)"
    using c contributions_Inl_iff [of L "descendants b"] by auto
  then obtain png where png: "png_of L I = Inr png"
    using assms(6) lit_img_neq_p by (cases "png_of L I") (auto simp: contribution_def)
  have nI: "?ni I = [Picture png (Inches 4)]"
    using png assms(6) lit_img_neq_p by (simp add: node_items_def)
  have nP: "?ni P = [Paragraph (get_text P)]"
    using assms(4) by (simp add: node_items_def)
  have "concat (map ?ni (descendants b)) =
          concat (map ?ni xs) @ Paragraph (get_text P) # concat (map ?ni us) @
          Picture png (Inches 4) # (concat (map ?ni vs) @ concat (map ?ni ys))"
    by (simp add: d1 d2 nI nP)
  then have "map_of fs' file_name =
     Some (Docx (concat (map ?ni xs) @ Paragraph (get_text P) # concat (map ?ni us) @
          Picture png (Inches 4) # (concat (map ?ni vs) @ concat (map ?ni ys))))"
    using f by (simp add: update_conv')
  then show ?thesis
    using png model_docx_of_app_success [OF assms(7)] by blast
qed

theorem C7_nested_image_dual_visit_witness:
  "parse_html (demo_libs demo_soup [10]) (lit ''<html>'') = Inr demo_soup \<and>
   body demo_soup = Some demo_body \<and>
   demo_p \<in> set (descendants demo_body) \<and> name demo_p = Some (lit ''p'') \<and>
   demo_img \<in> set (descendants demo_p) \<and> name demo_img = Some (lit ''img'') \<and>
   NoteApp_save_as_docx (demo_libs demo_soup [10]) (lit ''<html>'') (lit ''n.docx'') [] =
     (Inr (),
      demo_fs) \<and>
   NoteModel_save_as_docx (demo_libs demo_soup [10]) (lit ''<html>'') (lit ''n.docx'') [] =
     (Inr (),
      demo_fs) \<and>
   get_text demo_p = lit ''Hi!'' \<and>
   png_of (demo_libs demo_soup [10]) demo_img = Inr demo_png"
proof -
  have h1: "parse_html (demo_libs demo_soup [10]) (lit ''<html>'') = Inr demo_soup"
    by (rule demo_parse)
  have h3: "demo_p \<in> set (descendants demo_body)" by (simp add: demo_descendants)
  have h5: "demo_img \<in> set (descendants demo_p)" by (simp add: demo_p_descendants)
  note h7 = demo_export [of "[10]" "lit ''<html>''"]
  from C7_nested_image_dual_visit
    [OF h1 demo_body_found h3 demo_names(1) h5 demo_names(2) h7]
    h1 demo_body_found h3 h5 demo_names h7 demo_get_text demo_png_of
  show ?thesis by simp
qed

subsection \<open>C8: exports do not influence one another\<close>

text \<open>
  C8, as stated, fails: the exporter keeps no state, but the files an export leaves are
  state of the platform, and what opening a path raises depends on them. In a directory
  that holds no file, the export of the content \<open>a\<close> to the path \<open>n\<close> creates the regular
  file \<open>n\<close>. The export of the same content to the different path \<open>n/x.html\<close> made after it
  fails because \<open>n\<close> is not a directory; made alone it fails because there is no directory
  \<open>n\<close>. The two calls raise different exceptions, with different messages, in both
  implementations.
\<close>

theorem C8_directory_counterexample:
  "lit ''n'' \<noteq> lit ''n/x.html'' \<and>
   NoteModel_save_to_file (demo_posix_libs demo_plain_soup [10] []) [97] (lit ''n'') [] =
     (Inr True, [(lit ''n'', Bytes [97])]) \<and>
   NoteModel_save_to_file (demo_posix_libs demo_plain_soup [10] [(lit ''n'', Bytes [97])]) [97]
       (lit ''n/x.html'') [(lit ''n'', Bytes [97])] =
     (Inl (reraise ''Save failed: '' (NotADirectoryError (lit ''n/x.html''))),
      [(lit ''n'', Bytes [97])]) \<and>
   NoteModel_save_to_file (demo_posix_libs demo_plain_soup [10] []) [97] (lit ''n/x.html'') [] =
     (Inl (reraise ''Save failed: '' (NoSuchFileError (lit ''n/x.html''))), []) \<and>
   reraise ''Save failed: '' (NotADirectoryError (lit ''n/x.html'')) \<noteq>
     reraise ''Save failed: '' (NoSuchFileError (lit ''n/x.html'')) \<and>
   str (reraise ''Save failed: '' (NotADirectoryError (lit ''n/x.html''))) =
     lit ''Save failed: [Errno 20] Not a directory: '' @ [39] @ lit ''n/x.html'' @ [39] \<and>
   str (reraise ''Save failed: '' (NoSuchFileError (lit ''n/x.html''))) =
     lit ''Save failed: [Errno 2] No such file or directory: '' @ [39] @ lit ''n/x.html'' @ [39] \<and>
   NoteApp_save_to_file (demo_posix_libs demo_plain_soup [10] []) [97] (lit ''n'') [] =
     (Inr (), [(lit ''n'', Bytes [97])]) \<and>
   NoteApp_save_to_file (demo_posix_libs demo_plain_soup [10] [(lit ''n'', Bytes [97])]) [97]
       (lit ''n/x.html'') [(lit ''n'', Bytes [97])] =
     (Inl (NotADirectoryError (lit ''n/x.html'')), [(lit ''n'', Bytes [97])]) \<and>
   NoteApp_save_to_file (demo_posix_libs demo_plain_soup [10] []) [97] (lit ''n/x.html'') [] =
     (Inl (NoSuchFileError (lit ''n/x.html'')), []) \<and>
   NotADirectoryError (lit ''n/x.html'') \<noteq> NoSuchFileError (lit ''n/x.html'')"
proof -
  have r: "reraise ''Save failed: '' (NotADirectoryError (lit ''n/x.html'')) \<noteq>
     reraise ''Save failed: '' (NoSuchFileError (lit ''n/x.html''))"
    using demo_posix_errors(1) by (simp add: reraise_def)
  show ?thesis
    using demo_posix_paths(10) r demo_posix_errors
    by (simp add: app_save_to_file_text model_save_to_file_text demo_posix_paths(7)
        demo_posix_paths(9) demo_posix_write)
qed

text \<open>
  C8, amended. The content is a value that an export can only read, and the exporter keeps
  no state of its own: an export is a function of the content, the path, the libraries and
  the platform at the time of the call. Let a second export of the same content, to \<open>p2\<close>,
  be made after an export to \<open>p1\<close>, on a platform \<open>L2\<close> that differs from the platform \<open>L1\<close> of
  the first call only in what opening a path raises and in the names it gives to temporary
  files. If opening \<open>p2\<close> raises the same, or nothing, on both, then the second export
  returns what it returns when made alone on \<open>L1\<close>, whatever the first export left behind,
  and when it succeeds it leaves at \<open>p2\<close> what it leaves there when made alone.
\<close>

theorem C8_exports_are_independent:
  assumes "same_libraries L2 L1" and "io_error L2 p2 = io_error L1 p2"
    and "NoteModel_save_to_file L1 c p1 fs = (r1, fs1)"
    and "NoteModel_save_to_file L2 c p2 fs1 = (r2, fs2)"
    and "NoteModel_save_to_file L1 c p2 fs = (r2', fs2')"
    and "NoteApp_save_to_file L1 c p1 fs = (a1, gs1)"
    and "NoteApp_save_to_file L2 c p2 gs1 = (a2, gs2)"
    and "NoteApp_save_to_file L1 c p2 fs = (a2', gs2')"
  shows "r2 = r2' \<and> a2 = a2' \<and>
         (r2 = Inr True \<longrightarrow> map_of fs2 p2 = map_of fs2' p2) \<and>
         (a2 = Inr () \<longrightarrow> map_of gs2 p2 = map_of gs2' p2)"
proof -
  have e1: "fs1 = gs1" using model_save_snd [of L1 c p1 fs] assms(3) assms(6) by simp
  have e2: "fs2 = gs2" using model_save_snd [of L2 c p2 fs1] assms(4) assms(7) e1 by simp
  have e3: "fs2' = gs2'" using model_save_snd [of L1 c p2 fs] assms(5) assms(8) by simp
  have s2: "r2 = Inr True \<longleftrightarrow> a2 = Inr ()"
    using model_save_success_iff [of L2 c p2 fs1] assms(4) assms(7) e1 by simp
  have r: "r2 = r2'"
    using model_save_fst_same [OF assms(1) assms(2), of c fs1 fs] assms(4) assms(5) by simp
  have a: "a2 = a2'"
    using app_save_fst_same [OF assms(1) assms(2), of c gs1 fs] assms(7) assms(8) by simp
  have ws: "a2 = Inr () \<longrightarrow> map_of gs2 p2 = map_of gs2' p2"
    using app_save_saved [OF assms(1), of c p2 gs1 "()" gs2 fs "()" gs2'] assms(7) assms(8) a
    by simp
  show ?thesis using e2 e3 s2 r a ws by simp
qed

theorem C8_exports_are_independent_witness:
  "same_libraries (demo_posix_libs demo_plain_soup [10] [(lit ''n'', Bytes [97])])
     (demo_posix_libs demo_plain_soup [10] []) \<and>
   io_error (demo_posix_libs demo_plain_soup [10] [(lit ''n'', Bytes [97])]) (lit ''m.html'') =
     io_error (demo_posix_libs demo_plain_soup [10] []) (lit ''m.html'') \<and>
   NoteModel_save_to_file (demo_posix_libs demo_plain_soup [10] []) [97] (lit ''n'') [] =
     (Inr True, [(lit ''n'', Bytes [97])]) \<and>
   NoteModel_save_to_file (demo_posix_libs demo_plain_soup [10] [(lit ''n'', Bytes [97])]) [97]
       (lit ''m.html'') [(lit ''n'', Bytes [97])] =
     (Inr True, [(lit ''n'', Bytes [97]), (lit ''m.html'', Bytes [97])]) \<and>
   NoteModel_save_to_file (demo_posix_libs demo_plain_soup [10] []) [97] (lit ''m.html'') [] =
     (Inr True, [(lit ''m.html'', Bytes [97])]) \<and>
   NoteApp_save_to_file (demo_posix_libs demo_plain_soup [10] []) [97] (lit ''n'') [] =
     (Inr (), [(lit ''n'', Bytes [97])]) \<and>
   NoteApp_save_to_file (demo_posix_libs demo_plain_soup [10] [(lit ''n'', Bytes [97])]) [97]
       (lit ''m.html'') [(lit ''n'', Bytes [97])] =
     (Inr (), [(lit ''n'', Bytes [97]), (lit ''m.html'', Bytes [97])]) \<and>
   NoteApp_save_to_file (demo_posix_libs demo_plain_soup [10] []) [97] (lit ''m.html'') [] =
     (Inr (), [(lit ''m.html'', Bytes [97])]) \<and>
   map_of [(lit ''n'', Bytes [97]), (lit ''m.html'', Bytes [97])] (lit ''m.html'') =
     map_of [(lit ''m.html'', Bytes [97])] (lit ''m.html'')"
proof -
  let ?L1 = "demo_posix_libs demo_plain_soup [10] []"
  let ?L2 = "demo_posix_libs demo_plain_soup [10] [(lit ''n'', Bytes [97])]"
  have h1: "same_libraries ?L2 ?L1" by (rule demo_posix_same)
  have h2: "io_error ?L2 (lit ''m.html'') = io_error ?L1 (lit ''m.html'')"
    by (simp add: demo_posix_io demo_posix_open)
  have m1: "NoteModel_save_to_file ?L1 [97] (lit ''n'') [] = (Inr True, [(lit ''n'', Bytes [97])])"
    by (simp add: model_save_to_file_text demo_posix_paths(7) demo_posix_write)
  have m2: "NoteModel_save_to_file ?L2 [97] (lit ''m.html'') [(lit ''n'', Bytes [97])] =
     (Inr True, [(lit ''n'', Bytes [97]), (lit ''m.html'', Bytes [97])])"
    by (simp add: model_save_to_file_text demo_posix_paths(8) demo_posix_write)
  have m3: "NoteModel_save_to_file ?L1 [97] (lit ''m.html'') [] =
     (Inr True, [(lit ''m.html'', Bytes [97])])"
    by (simp add: model_save_to_file_text demo_posix_paths(8) demo_posix_write)
  have a1: "NoteApp_save_to_file ?L1 [97] (lit ''n'') [] = (Inr (), [(lit ''n'', Bytes [97])])"
    by (simp add: app_save_to_file_text demo_posix_paths(7) demo_posix_write)
  have a2: "NoteApp_save_to_file ?L2 [97] (lit ''m.html'') [(lit ''n'', Bytes [97])] =
     (Inr (), [(lit ''n'', Bytes [97]), (lit ''m.html'', Bytes [97])])"
    by (simp add: app_save_to_file_text demo_posix_paths(8) demo_posix_write)
  have a3: "NoteApp_save_to_file ?L1 [97] (lit ''m.html'') [] =
     (Inr (), [(lit ''m.html'', Bytes [97])])"
    by (simp add: app_save_to_file_text demo_posix_paths(8) demo_posix_write)
  note w = C8_exports_are_independent [OF h1 h2 m1 m2 m3 a1 a2 a3]
  have f: "map_of [(lit ''n'', Bytes [97]), (lit ''m.html'', Bytes [97])] (lit ''m.html'') =
     map_of [(lit ''m.html'', Bytes [97])] (lit ''m.html'')"
    using w [THEN conjunct2, THEN conjunct2, THEN conjunct1] by simp
  show ?thesis using h1 h2 m1 m2 m3 a1 a2 a3 f by (intro conjI)
qed

subsection \<open>C9: no body element\<close>

text \<open>
  C9. When the parsed tree has no tag named \<open>body\<close>, \<open>soup.body\<close> is \<open>None\<close> and reading
  its \<open>descendants\<close> raises \<open>AttributeError\<close>: the export fails (unwrapped in
  \<open>NoteApp\<close>, wrapped in \<open>NoteModel\<close>), nothing is written, and no empty document is
  produced.
\<close>

theorem C9_missing_body_fails:
  assumes "parse_html L content = Inr soup" and "body soup = None"
  shows "NoteApp_save_as_docx L content file_name fs =
           (Inl (AttributeError_None ''descendants''), fs) \<and>
         NoteModel_save_as_docx L content file_name fs =
           (Inl (reraise ''DOCX conversion failed: '' (AttributeError_None ''descendants'')), fs) \<and>
         (endswith file_name (lit ''.docx'') \<longrightarrow>
            NoteApp_save_to_file L content file_name fs =
              (Inl (AttributeError_None ''descendants''), fs) \<and>
            NoteModel_save_to_file L content file_name fs =
              (Inl (reraise ''Save failed: ''
                     (reraise ''DOCX conversion failed: '' (AttributeError_None ''descendants''))),
               fs)) \<and>
         (\<forall>e \<in> set (descendants soup). name e \<noteq> Some (lit ''body''))"
proof -
  have a: "NoteApp_save_as_docx L content file_name fs =
           (Inl (AttributeError_None ''descendants''), fs)"
    using assms by (simp add: NoteApp_save_as_docx_def)
  have m: "NoteModel_save_as_docx L content file_name fs =
           (Inl (reraise ''DOCX conversion failed: '' (AttributeError_None ''descendants'')), fs)"
    using assms by (simp add: NoteModel_save_as_docx_def try_except_def)
  have n: "\<forall>e \<in> set (descendants soup). name e \<noteq> Some (lit ''body'')"
    using assms(2) by (simp add: body_def find_None_iff)
  show ?thesis using a m n
    by (simp add: NoteApp_save_to_file_def model_save_to_file_docx)
qed

theorem C9_missing_body_fails_witness:
  "parse_html (demo_libs demo_plain_soup [10]) (lit ''plain text'') = Inr demo_plain_soup \<and>
   body demo_plain_soup = None \<and>
   endswith (lit ''n.docx'') (lit ''.docx'') \<and>
   NoteApp_save_to_file (demo_libs demo_plain_soup [10]) (lit ''plain text'') (lit ''n.docx'') [] =
     (Inl (AttributeError_None ''descendants''), []) \<and>
   NoteModel_save_to_file (demo_libs demo_plain_soup [10]) (lit ''plain text'') (lit ''n.docx'') [] =
     (Inl (reraise ''Save failed: ''
            (reraise ''DOCX conversion failed: '' (AttributeError_None ''descendants''))), [])"
proof -
  have h1: "parse_html (demo_libs demo_plain_soup [10]) (lit ''plain text'') = Inr demo_plain_soup"
    by (rule demo_parse)
  from C9_missing_body_fails [OF h1 demo_plain_body, of "lit ''n.docx''" "[]"]
    h1 demo_plain_body demo_endswith_docx
  show ?thesis by simp
qed

subsection \<open>C10: the two implementations agree\<close>

text \<open>
  C10. \<open>NoteApp.save_as_docx\<close> and \<open>NoteModel._save_as_docx\<close> fail on the same inputs and
  leave the same file system; when both succeed they save the same document, the
  concatenation of the node items over the body's descendants (same paragraphs, same
  pictures, same order, width \<open>Inches 4\<close>). They differ only in the exception raised.
\<close>

theorem C10_implementations_agree:
  "snd (NoteModel_save_as_docx L c p fs) = snd (NoteApp_save_as_docx L c p fs) \<and>
   (isl (fst (NoteModel_save_as_docx L c p fs)) \<longleftrightarrow> isl (fst (NoteApp_save_as_docx L c p fs))) \<and>
   (NoteApp_save_as_docx L c p fs = (Inr (), fs1) \<and>
    NoteModel_save_as_docx L c p fs = (Inr (), fs2) \<longrightarrow>
      fs1 = fs2 \<and>
      (\<exists>soup b. parse_html L c = Inr soup \<and> body soup = Some b \<and>
         map_of fs1 p = Some (Docx (concat (map (node_items L) (descendants b)))) \<and>
         map_of fs2 p = Some (Docx (concat (map (node_items L) (descendants b)))))) \<and>
   (endswith p (lit ''.docx'') \<and> NoteApp_save_to_file L c p fs = (Inr (), fs1) \<and>
    NoteModel_save_to_file L c p fs = (Inr True, fs2) \<longrightarrow> fs1 = fs2)"
proof -
  obtain r fs0 where a: "NoteApp_save_as_docx L c p fs = (r, fs0)"
    by (cases "NoteApp_save_as_docx L c p fs")
  have sm: "snd (NoteModel_save_as_docx L c p fs) = fs0 \<and>
            (isl (fst (NoteModel_save_as_docx L c p fs)) \<longleftrightarrow> isl r)"
  proof (cases r)
    case (Inl e)
    then show ?thesis using model_docx_of_app_failure [of L c p fs e fs0] a by auto
  next
    case (Inr u)
    then show ?thesis using model_docx_of_app_success [of L c p fs u fs0] a by auto
  qed
  have s3: "NoteApp_save_as_docx L c p fs = (Inr (), fs1) \<and>
    NoteModel_save_as_docx L c p fs = (Inr (), fs2) \<longrightarrow>
      fs1 = fs2 \<and>
      (\<exists>soup b. parse_html L c = Inr soup \<and> body soup = Some b \<and>
         map_of fs1 p = Some (Docx (concat (map (node_items L) (descendants b)))) \<and>
         map_of fs2 p = Some (Docx (concat (map (node_items L) (descendants b)))))"
  proof
    assume h: "NoteApp_save_as_docx L c p fs = (Inr (), fs1) \<and>
       NoteModel_save_as_docx L c p fs = (Inr (), fs2)"
    then have e: "fs1 = fs2" using model_docx_of_app_success [of L c p fs "()" fs1] by simp
    from h obtain soup b where pb: "parse_html L c = Inr soup" "body soup = Some b"
      using app_docx_success_parse by blast
    obtain fs' where
      "fs1 = AList.update p (Docx (concat (map (node_items L) (descendants b)))) fs'"
      using app_docx_success [OF _ pb] h by blast
    then have "map_of fs1 p = Some (Docx (concat (map (node_items L) (descendants b))))"
      by (simp add: update_conv')
    then show "fs1 = fs2 \<and>
      (\<exists>soup b. parse_html L c = Inr soup \<and> body soup = Some b \<and>
         map_of fs1 p = Some (Docx (concat (map (node_items L) (descendants b)))) \<and>
         map_of fs2 p = Some (Docx (concat (map (node_items L) (descendants b)))))"
      using e pb by blast
  qed
  have s4: "endswith p (lit ''.docx'') \<and> NoteApp_save_to_file L c p fs = (Inr (), fs1) \<and>
    NoteModel_save_to_file L c p fs = (Inr True, fs2) \<longrightarrow> fs1 = fs2"
  proof
    assume h: "endswith p (lit ''.docx'') \<and> NoteApp_save_to_file L c p fs = (Inr (), fs1) \<and>
      NoteModel_save_to_file L c p fs = (Inr True, fs2)"
    then have "NoteApp_save_as_docx L c p fs = (Inr (), fs1)"
      by (auto simp: NoteApp_save_to_file_def)
    then have "NoteModel_save_as_docx L c p fs = (Inr (), fs1)"
      by (rule model_docx_of_app_success)
    then show "fs1 = fs2" using h by (auto simp: model_save_to_file_docx)
  qed
  show ?thesis using sm a s3 s4 by simp
qed

theorem C10_implementations_agree_witness:
  "endswith (lit ''n.docx'') (lit ''.docx'') \<and>
   NoteApp_save_to_file (demo_libs demo_soup [10]) (lit ''<html>'') (lit ''n.docx'') [] =
     (Inr (),
      demo_fs) \<and>
   NoteModel_save_to_file (demo_libs demo_soup [10]) (lit ''<html>'') (lit ''n.docx'') [] =
     (Inr True,
      demo_fs)"
proof -
  let ?L = "demo_libs demo_soup [10]"
  note a = demo_export [of "[10]" "lit ''<html>''"]
  have sa: "NoteApp_save_to_file ?L (lit ''<html>'') (lit ''n.docx'') [] =
              NoteApp_save_as_docx ?L (lit ''<html>'') (lit ''n.docx'') []"
    by (simp add: NoteApp_save_to_file_def demo_endswith_docx)
  obtain r fs2 where m: "NoteModel_save_as_docx ?L (lit ''<html>'') (lit ''n.docx'') [] = (r, fs2)"
    by (cases "NoteModel_save_as_docx ?L (lit ''<html>'') (lit ''n.docx'') []")
  have "\<not> isl r \<and> fs2 = snd (NoteApp_save_as_docx ?L (lit ''<html>'') (lit ''n.docx'') [])"
    using C10_implementations_agree [of ?L "lit ''<html>''" "lit ''n.docx''" "[]"] m a by simp
  then have "NoteModel_save_as_docx ?L (lit ''<html>'') (lit ''n.docx'') [] =
     (Inr (), snd (NoteApp_save_as_docx ?L (lit ''<html>'') (lit ''n.docx'') []))"
    using m by (cases r) auto
  then show ?thesis using a sa demo_endswith_docx
    by (simp add: model_save_to_file_docx)
qed

end
